theory Spec2Isabelle
  imports Main "HOL-Library.Char_ord" "HOL-Library.List_Lexorder" "HOL-Library.AList"
begin

section \<open>Library primitives the element index is written with\<close>

text \<open>
  The classes of \<^verbatim>\<open>stellargraph/core/element_data.py\<close> are written on top of a few
  pandas, numpy and tensorflow primitives. Each one is given here by the behaviour the
  source relies on. Integer arrays are lists of \<open>int\<close>; where the element type of an
  array matters (conversions, arithmetic that wraps around), it is given beside the list.
\<close>

subsection \<open>numpy: scalar types\<close>

text \<open>
  \<^verbatim>\<open>np.min_scalar_type(n)\<close> for a non-negative Python integer: the smallest unsigned
  integer type that holds \<open>n\<close>, and the object type when no 64-bit type does.
\<close>

datatype dtype = UInt8 | UInt16 | UInt32 | UInt64 | Object

definition np_min_scalar_type :: "nat \<Rightarrow> dtype" where
  "np_min_scalar_type n =
     (if n \<le> 255 then UInt8
      else if n \<le> 65535 then UInt16
      else if n \<le> 4294967295 then UInt32
      else if n \<le> 18446744073709551615 then UInt64
      else Object)"

text \<open>\<^verbatim>\<open>np.iinfo(dtype).max\<close>: the largest value of an integer type (none for object).\<close>

fun iinfo_max :: "dtype \<Rightarrow> int option" where
  "iinfo_max UInt8 = Some 255"
| "iinfo_max UInt16 = Some 65535"
| "iinfo_max UInt32 = Some 4294967295"
| "iinfo_max UInt64 = Some 18446744073709551615"
| "iinfo_max Object = None"

text \<open>
  \<^verbatim>\<open>a.astype(dtype)\<close> on one element of an int64 array: conversion to an unsigned type
  wraps around modulo the width; conversion to object keeps the integer.
\<close>

fun np_astype :: "dtype \<Rightarrow> int \<Rightarrow> int" where
  "np_astype UInt8 v = v mod 256"
| "np_astype UInt16 v = v mod 65536"
| "np_astype UInt32 v = v mod 4294967296"
| "np_astype UInt64 v = v mod 18446744073709551616"
| "np_astype Object v = v"

subsection \<open>numpy: indexing and repetition\<close>

text \<open>
  \<^verbatim>\<open>a[i]\<close> for an integer \<open>i\<close>: a negative index counts from the end, and an index
  outside \<open>[-n, n)\<close> raises IndexError (here the pair of the index and the size).
\<close>

definition np_item :: "'a list \<Rightarrow> int \<Rightarrow> (int \<times> nat) + 'a" where
  "np_item xs i =
     (let n = int (length xs)
      in if 0 \<le> i \<and> i < n then Inr (xs ! nat i)
         else if - n \<le> i \<and> i < 0 then Inr (xs ! nat (i + n))
         else Inl (i, length xs))"

text \<open>\<^verbatim>\<open>a[ilocs]\<close> for an integer array \<open>ilocs\<close>: every position is read as above.\<close>

fun np_take :: "'a list \<Rightarrow> int list \<Rightarrow> (int \<times> nat) + 'a list" where
  "np_take xs [] = Inr []"
| "np_take xs (i # js) =
     (case np_item xs i of
        Inl e \<Rightarrow> Inl e
      | Inr v \<Rightarrow> (case np_take xs js of Inl e \<Rightarrow> Inl e | Inr vs \<Rightarrow> Inr (v # vs)))"

text \<open>\<^verbatim>\<open>a[mask]\<close> for a boolean array: the elements where the mask is true.\<close>

definition mask_select :: "'a list \<Rightarrow> bool list \<Rightarrow> 'a list" where
  "mask_select xs m = map fst (filter snd (zip xs m))"

text \<open>\<^verbatim>\<open>a.repeat(counts)\<close>: element \<open>k\<close> repeated \<open>counts[k]\<close> times.\<close>

definition np_repeat :: "'a list \<Rightarrow> nat list \<Rightarrow> 'a list" where
  "np_repeat xs counts = concat (map (\<lambda>(x, n). replicate n x) (zip xs counts))"

subsection \<open>pandas: Index\<close>

text \<open>
  \<^verbatim>\<open>Index.get_indexer(ids)\<close>: for each queried label its position in the index, and
  \<open>-1\<close> for a label that is not there.
\<close>

fun get_loc :: "'a list \<Rightarrow> 'a \<Rightarrow> int" where
  "get_loc [] x = - 1"
| "get_loc (y # ys) x =
     (if x = y then 0 else (let r = get_loc ys x in if r < 0 then - 1 else r + 1))"

definition pd_get_indexer :: "'a list \<Rightarrow> 'a list \<Rightarrow> int list" where
  "pd_get_indexer idx ids = map (get_loc idx) ids"

text \<open>
  \<^verbatim>\<open>Index.duplicated()\<close> flags every occurrence of a label but its first;
  \<^verbatim>\<open>Index.unique()\<close> keeps the first occurrence of each label, in order.
\<close>

fun duplicated_from :: "'a list \<Rightarrow> 'a list \<Rightarrow> bool list" where
  "duplicated_from seen [] = []"
| "duplicated_from seen (x # xs) = (x \<in> set seen) # duplicated_from (x # seen) xs"

definition pd_duplicated :: "'a list \<Rightarrow> bool list" where
  "pd_duplicated xs = duplicated_from [] xs"

definition pd_unique :: "'a list \<Rightarrow> 'a list" where
  "pd_unique xs = rev (remdups (rev xs))"

subsection \<open>numpy: arithmetic on arrays of ilocs\<close>



text \<open>Conversion to int64 wraps around modulo \<open>2 ^ 64\<close>.\<close>

definition wrap_int64 :: "int \<Rightarrow> int" where
  "wrap_int64 v = (v + 2 ^ 63) mod 2 ^ 64 - 2 ^ 63"





subsection \<open>tensorflow: row lookup\<close>


section \<open>ExternalIdIndex\<close>

text \<open>
  The exceptions an index raises, with the values they carry. The ValueError of the
  constructor lists the repeated identifiers in its message (through \<^verbatim>\<open>comma_sep\<close>);
  here it carries the list itself. The index is the list of identifiers in order, so the
  iloc of an identifier is its position.
\<close>

datatype 'a index_error =
    ValueError_duplicated "'a list"
  | KeyError_value 'a
  | KeyError_values "'a list"
  | IndexError int nat

record 'a ExternalIdIndex =
  index :: "'a list"
  dtype :: dtype

definition ExternalIdIndex_init :: "'a list \<Rightarrow> 'a index_error + 'a ExternalIdIndex" where
  "ExternalIdIndex_init ids =
     (let self = \<lparr>index = ids, dtype = np_min_scalar_type (length ids)\<rparr>
      in if \<not> distinct (index self)
         then Inl (ValueError_duplicated
                (pd_unique (mask_select (index self) (pd_duplicated (index self)))))
         else Inr self)"

definition len_index :: "'a ExternalIdIndex \<Rightarrow> nat" where
  "len_index self = length (index self)"

definition contains_external :: "'a ExternalIdIndex \<Rightarrow> 'a \<Rightarrow> bool" where
  "contains_external self x = (x \<in> set (index self))"

definition is_valid :: "'a ExternalIdIndex \<Rightarrow> int list \<Rightarrow> bool list" where
  "is_valid self ilocs = map (\<lambda>i. 0 \<le> i \<and> i < int (len_index self)) ilocs"

definition require_valid ::
  "'a ExternalIdIndex \<Rightarrow> 'a list \<Rightarrow> int list \<Rightarrow> 'a index_error + unit" where
  "require_valid self query_ids ilocs =
     (let valid = is_valid self ilocs
      in if \<not> list_all id valid
         then (let missing_values = mask_select query_ids (map Not valid)
               in if length missing_values = 1
                  then Inl (KeyError_value (hd missing_values))
                  else Inl (KeyError_values missing_values))
         else Inr ())"

definition to_iloc ::
  "'a ExternalIdIndex \<Rightarrow> 'a list \<Rightarrow> bool \<Rightarrow> bool \<Rightarrow> 'a index_error + int list" where
  "to_iloc self ids smaller_type strict =
     (let internal_ids = pd_get_indexer (index self) ids
      in case (if strict then require_valid self ids internal_ids else Inr ()) of
           Inl e \<Rightarrow> Inl e
         | Inr _ \<Rightarrow>
             if smaller_type then Inr (map (np_astype (dtype self)) internal_ids)
             else Inr internal_ids)"

definition from_iloc :: "'a ExternalIdIndex \<Rightarrow> int list \<Rightarrow> 'a index_error + 'a list" where
  "from_iloc self internal_ids =
     (case np_take (index self) internal_ids of
        Inl (i, n) \<Rightarrow> Inl (IndexError i n)
      | Inr labels \<Rightarrow> Inr labels)"

section \<open>ElementData\<close>

text \<open>
  A pandas DataFrame is given by the dtype of its row index, the dtypes of its columns
  and the list of its rows in order, each row the pair of its label (the entry of
  \<^verbatim>\<open>df.index\<close>) and the values of its columns; \<^verbatim>\<open>len(df)\<close> is the number of rows.
  A Python dict given by its items is an association list read with \<open>map_of\<close>; its
  keys are the distinct first components.

  The row type holds the columns that the class requires, so the first loop of the
  constructor, which rejects a value that is not a DataFrame or lacks a required column
  (\<^verbatim>\<open>require_dataframe_has_columns\<close>), has nothing to reject and is left to the
  types. The dict \<^verbatim>\<open>_columns\<close> of column arrays is the list of the row values,
  with the dtypes of the arrays beside it.
\<close>

record ('id, 'row, 'dt, 'cdt) dataframe =
  df_index_dtype :: 'dt
  df_dtypes :: 'cdt
  df_rows :: "('id \<times> 'row) list"

text \<open>
  \<^verbatim>\<open>pd.concat(dfs)\<close> appends the rows, after it has converted the row labels of every
  table to the common dtype of the row indexes and the values of every column to the
  common dtype of that column in the tables (two integer labels that differ can so
  become the same floating-point label). What the common dtype of some dtypes is and
  what a conversion does to a value are pandas' and numpy's business; the constructor
  is modelled for any such functions, which it takes as the argument \<open>ops\<close>. The table
  without rows that the constructor builds when there is no type has the dtypes that
  these functions give for no table.
\<close>

record ('id, 'row, 'dt, 'cdt) concat_ops =
  common_type :: "'dt list \<Rightarrow> 'dt"
  astype_label :: "'dt \<Rightarrow> 'id \<Rightarrow> 'id"
  common_columns :: "'cdt list \<Rightarrow> 'cdt"
  astype_row :: "'cdt \<Rightarrow> 'row \<Rightarrow> 'row"

definition pd_concat ::
  "('id, 'row, 'dt, 'cdt) concat_ops \<Rightarrow> ('id, 'row, 'dt, 'cdt) dataframe list \<Rightarrow>
   ('id, 'row, 'dt, 'cdt) dataframe" where
  "pd_concat ops dfs =
     (let index_dtype = common_type ops (map df_index_dtype dfs);
          dtypes = common_columns ops (map df_dtypes dfs)
      in \<lparr>df_index_dtype = index_dtype,
          df_dtypes = dtypes,
          df_rows = map (\<lambda>(label, row). (astype_label ops index_dtype label, astype_row ops dtypes row))
                      (concat (map df_rows dfs))\<rparr>)"

definition empty_frame ::
  "('id, 'row, 'dt, 'cdt) concat_ops \<Rightarrow> ('id, 'row, 'dt, 'cdt) dataframe" where
  "empty_frame ops =
     \<lparr>df_index_dtype = common_type ops [], df_dtypes = common_columns ops [], df_rows = []\<rparr>"

text \<open>
  The exceptions of the stores. \<open>Ids_raised\<close> and \<open>Types_raised\<close> carry an exception
  of the index of element ids and of the index of type names.
\<close>

datatype ('id, 't) error =
    Ids_raised "'id index_error"
  | Types_raised "'t index_error"
  | KeyError_type 't
  | KeyError_node int
  | IndexError_type_column int nat
  | ValueError_unknown_IDs
  | ValueError_feature_rows 't nat nat
  | ValueError_ins_outs
  | OverflowError_int

definition then_do :: "'e + 'a \<Rightarrow> ('a \<Rightarrow> 'e + 'b) \<Rightarrow> 'e + 'b" where
  "then_do r f = (case r of Inl e \<Rightarrow> Inl e | Inr x \<Rightarrow> f x)"

definition dict_get :: "('t \<rightharpoonup> 'v) \<Rightarrow> 't \<Rightarrow> ('id, 't) error + 'v" where
  "dict_get d k = (case d k of None \<Rightarrow> Inl (KeyError_type k) | Some v \<Rightarrow> Inr v)"

record ('id, 't, 'row, 'cdt) ElementData =
  id_index :: "'id ExternalIdIndex"
  columns :: "'row list"
  column_dtypes :: 'cdt
  type_index :: "'t ExternalIdIndex"
  type_column :: "int list"
  type_element_ilocs :: "'t \<rightharpoonup> nat \<times> nat"

text \<open>
  The loop over the sorted type names. The state is the tuple of the local variables
  \<^verbatim>\<open>type_element_ilocs\<close> (here \<open>element_ilocs\<close>), \<^verbatim>\<open>rows_so_far\<close>, \<^verbatim>\<open>type_sizes\<close> and \<^verbatim>\<open>type_dfs\<close>;
  a range \<^verbatim>\<open>range(start, stop)\<close> is the pair \<open>(start, stop)\<close>.
\<close>

fun type_loop ::
  "('t \<times> ('id, 'row, 'dt, 'cdt) dataframe) list \<Rightarrow> 't list \<Rightarrow>
   ('t \<rightharpoonup> nat \<times> nat) \<times> nat \<times> nat list \<times> ('id, 'row, 'dt, 'cdt) dataframe list \<Rightarrow>
   ('id, 't) error +
   (('t \<rightharpoonup> nat \<times> nat) \<times> nat \<times> nat list \<times> ('id, 'row, 'dt, 'cdt) dataframe list)"
  where
  "type_loop shared [] st = Inr st"
| "type_loop shared (type_name # rest) (element_ilocs, rows_so_far, type_sizes, type_dfs) =
     (case map_of shared type_name of
        None \<Rightarrow> Inl (KeyError_type type_name)
      | Some type_data \<Rightarrow>
          (let size = length (df_rows type_data)
           in type_loop shared rest
                (element_ilocs(type_name \<mapsto> (rows_so_far, rows_so_far + size)),
                 rows_so_far + size,
                 type_sizes @ [size],
                 type_dfs @ [type_data])))"

definition ElementData_init ::
  "('id, 'row, 'dt, 'cdt) concat_ops \<Rightarrow> ('t::linorder \<times> ('id, 'row, 'dt, 'cdt) dataframe) list \<Rightarrow>
   ('id, 't) error + ('id, 't, 'row, 'cdt) ElementData"
  where
  "ElementData_init ops shared =
     (let all_types = sort (remdups (map fst shared))
      in then_do (type_loop shared all_types (Map.empty, 0, [], []))
           (\<lambda>(element_ilocs, rows_so_far, type_sizes, type_dfs).
              let all_columns = (if type_dfs \<noteq> [] then pd_concat ops type_dfs else empty_frame ops)
              in case ExternalIdIndex_init (map fst (df_rows all_columns)) of
                   Inl e \<Rightarrow> Inl (Ids_raised e)
                 | Inr ids_ix \<Rightarrow>
                     (case ExternalIdIndex_init all_types of
                        Inl e \<Rightarrow> Inl (Types_raised e)
                      | Inr types_ix \<Rightarrow>
                          (case to_iloc types_ix all_types True False of
                             Inl e \<Rightarrow> Inl (Types_raised e)
                           | Inr codes \<Rightarrow>
                               Inr \<lparr>id_index = ids_ix,
                                    columns = map snd (df_rows all_columns),
                                    column_dtypes = df_dtypes all_columns,
                                    type_index = types_ix,
                                    type_column = np_repeat codes type_sizes,
                                    type_element_ilocs = element_ilocs\<rparr>))))"

definition ElementData_len :: "('id, 't, 'row, 'cdt, 'z) ElementData_scheme \<Rightarrow> nat" where
  "ElementData_len self = len_index (id_index self)"

definition ElementData_contains ::
  "('id, 't, 'row, 'cdt, 'z) ElementData_scheme \<Rightarrow> 'id \<Rightarrow> bool" where
  "ElementData_contains self item = contains_external (id_index self) item"

definition type_range ::
  "('id, 't, 'row, 'cdt, 'z) ElementData_scheme \<Rightarrow> 't \<Rightarrow> ('id, 't) error + nat \<times> nat" where
  "type_range self type_name = dict_get (type_element_ilocs self) type_name"

definition type_ilocs :: "('id, 't, 'row, 'cdt, 'z) ElementData_scheme \<Rightarrow> int list" where
  "type_ilocs self = type_column self"

definition type_of_iloc ::
  "('id, 't, 'row, 'cdt, 'z) ElementData_scheme \<Rightarrow> int list \<Rightarrow> ('id, 't) error + 't list" where
  "type_of_iloc self id_ilocs =
     (case np_take (type_column self) id_ilocs of
        Inl (i, n) \<Rightarrow> Inl (IndexError_type_column i n)
      | Inr type_codes \<Rightarrow>
          (case from_iloc (type_index self) type_codes of
             Inl e \<Rightarrow> Inl (Types_raised e)
           | Inr names \<Rightarrow> Inr names))"

section \<open>NodeData\<close>





section \<open>EdgeData\<close>

text \<open>
  An edge row holds the required columns \<^verbatim>\<open>SOURCE\<close>, \<^verbatim>\<open>TARGET\<close> and \<^verbatim>\<open>WEIGHT\<close>,
  in this order, and the dtypes of an edge table are the dtypes of these three columns;
  source and target are node ilocs, that is integers. For edge tables the functions
  that \<^verbatim>\<open>pd.concat\<close> needs come from the common dtype and from the conversions of
  labels, integers and weights: \<^verbatim>\<open>np.array(values, dtype)\<close> uses the same conversions.
  A conversion is a function of the dtype and the value: it may change the value (an
  integer of more than 53 bits converted to float64 is rounded, an integer converted to
  a narrower integer dtype wraps around), and it returns a value for every argument.
\<close>

type_synonym 'w edge = "int \<times> int \<times> 'w"

record ('id, 'w, 'dt) casts =
  result_dtype :: "'dt list \<Rightarrow> 'dt"
  cast_label :: "'dt \<Rightarrow> 'id \<Rightarrow> 'id"
  cast_iloc :: "'dt \<Rightarrow> int \<Rightarrow> int"
  cast_weight :: "'dt \<Rightarrow> 'w \<Rightarrow> 'w"

definition edge_concat_ops ::
  "('id, 'w, 'dt) casts \<Rightarrow> ('id, 'w edge, 'dt, 'dt \<times> 'dt \<times> 'dt) concat_ops" where
  "edge_concat_ops np =
     \<lparr>common_type = result_dtype np,
      astype_label = cast_label np,
      common_columns =
        (\<lambda>dtypes. (result_dtype np (map (\<lambda>(sd, td, wd). sd) dtypes),
                   result_dtype np (map (\<lambda>(sd, td, wd). td) dtypes),
                   result_dtype np (map (\<lambda>(sd, td, wd). wd) dtypes))),
      astype_row =
        (\<lambda>(sd, td, wd) (src, tgt, wt).
           (cast_iloc np sd src, cast_iloc np td tgt, cast_weight np wd wt))\<rparr>"

record ('id, 't, 'w, 'dt) EdgeData = "('id, 't, 'w edge, 'dt \<times> 'dt \<times> 'dt) ElementData" +
  sources :: "int list"
  targets :: "int list"
  weights :: "'w list"
  all_type_names :: "'t list"
  edges_in_by_type :: "'t \<rightharpoonup> (int \<rightharpoonup> int list)"
  edges_out_by_type :: "'t \<rightharpoonup> (int \<rightharpoonup> int list)"
  edges_by_type :: "'t \<rightharpoonup> (int \<rightharpoonup> int list)"
  weights_in_by_type :: "'t \<rightharpoonup> (int \<rightharpoonup> 'w list)"
  weights_out_by_type :: "'t \<rightharpoonup> (int \<rightharpoonup> 'w list)"
  weights_by_type :: "'t \<rightharpoonup> (int \<rightharpoonup> 'w list)"

text \<open>\<^verbatim>\<open>self.sources.dtype\<close> and \<^verbatim>\<open>self.weights.dtype\<close>\<close>

definition sources_dtype :: "('id, 't, 'w edge, 'dt \<times> 'dt \<times> 'dt, 'z) ElementData_scheme \<Rightarrow> 'dt" where
  "sources_dtype self = (case column_dtypes self of (sd, td, wd) \<Rightarrow> sd)"

definition weights_dtype :: "('id, 't, 'w edge, 'dt \<times> 'dt \<times> 'dt, 'z) ElementData_scheme \<Rightarrow> 'dt" where
  "weights_dtype self = (case column_dtypes self of (sd, td, wd) \<Rightarrow> wd)"

text \<open>The six dicts that the constructor fills for one edge type.\<close>

record 'w adjacency =
  in_dict :: "int \<rightharpoonup> int list"
  in_weights :: "int \<rightharpoonup> 'w list"
  out_dict :: "int \<rightharpoonup> int list"
  out_weights :: "int \<rightharpoonup> 'w list"
  undirected :: "int \<rightharpoonup> int list"
  und_weights :: "int \<rightharpoonup> 'w list"

text \<open>\<^verbatim>\<open>dict((i, []) for i in range(num_nodes))\<close>\<close>

definition empty_lists :: "int \<Rightarrow> (int \<rightharpoonup> 'a list)" where
  "empty_lists num_nodes = (\<lambda>i. if 0 \<le> i \<and> i < num_nodes then Some [] else None)"

text \<open>\<^verbatim>\<open>d[k].append(x)\<close>: KeyError when \<open>k\<close> is not a key of \<open>d\<close>.\<close>

definition dict_append ::
  "(int \<rightharpoonup> 'a list) \<Rightarrow> int \<Rightarrow> 'a \<Rightarrow> ('id, 't) error + (int \<rightharpoonup> 'a list)" where
  "dict_append d k x =
     (case d k of None \<Rightarrow> Inl (KeyError_node k) | Some xs \<Rightarrow> Inr (d(k \<mapsto> xs @ [x])))"

text \<open>The body of the loop over the edges of one type.\<close>

fun add_edge :: "'w adjacency \<Rightarrow> 'w edge \<Rightarrow> ('id, 't) error + 'w adjacency" where
  "add_edge st (src, tgt, wt) =
     then_do (dict_append (in_dict st) tgt src) (\<lambda>in_dict'.
     then_do (dict_append (in_weights st) tgt wt) (\<lambda>in_weights'.
     then_do (dict_append (out_dict st) src tgt) (\<lambda>out_dict'.
     then_do (dict_append (out_weights st) src wt) (\<lambda>out_weights'.
     then_do (dict_append (undirected st) tgt src) (\<lambda>undirected'.
     then_do (dict_append (und_weights st) tgt wt) (\<lambda>und_weights'.
       if src \<noteq> tgt
       then then_do (dict_append undirected' src tgt) (\<lambda>undirected''.
            then_do (dict_append und_weights' src wt) (\<lambda>und_weights''.
              Inr \<lparr>in_dict = in_dict', in_weights = in_weights',
                   out_dict = out_dict', out_weights = out_weights',
                   undirected = undirected'', und_weights = und_weights''\<rparr>))
       else Inr \<lparr>in_dict = in_dict', in_weights = in_weights',
                 out_dict = out_dict', out_weights = out_weights',
                 undirected = undirected', und_weights = und_weights'\<rparr>))))))"

fun edge_loop :: "'w adjacency \<Rightarrow> 'w edge list \<Rightarrow> ('id, 't) error + 'w adjacency" where
  "edge_loop st [] = Inr st"
| "edge_loop st (e # es) = then_do (add_edge st e) (\<lambda>st'. edge_loop st' es)"

definition initial_adjacency :: "int \<Rightarrow> 'w adjacency" where
  "initial_adjacency num_nodes =
     \<lparr>in_dict = empty_lists num_nodes, in_weights = empty_lists num_nodes,
      out_dict = empty_lists num_nodes, out_weights = empty_lists num_nodes,
      undirected = empty_lists num_nodes, und_weights = empty_lists num_nodes\<rparr>"

text \<open>
  \<^verbatim>\<open>_numpyise(d, dtype)\<close> turns every list of the dict into an array of the given
  dtype: every element is converted to that dtype, whatever column it was read from;
  keys and order stay as they are. \<open>cast\<close> is the conversion to the dtype.
\<close>

definition numpyise :: "('a \<Rightarrow> 'a) \<Rightarrow> ('k \<rightharpoonup> 'a list) \<Rightarrow> ('k \<rightharpoonup> 'a list)" where
  "numpyise cast d = (\<lambda>k. map_option (map cast) (d k))"

text \<open>
  The loop over \<^verbatim>\<open>self.all_type_names\<close>, which stores the tables of each type: the
  neighbour lists as arrays of the dtype of the store's source column, the weight lists
  as arrays of the dtype of its weight column.
\<close>

fun edge_type_loop ::
  "('id, 'w, 'dt) casts \<Rightarrow> ('t \<times> ('id, 'w edge, 'dt, 'dt \<times> 'dt \<times> 'dt) dataframe) list \<Rightarrow> int \<Rightarrow>
   't list \<Rightarrow> ('id, 't, 'w, 'dt) EdgeData \<Rightarrow> ('id, 't) error + ('id, 't, 'w, 'dt) EdgeData" where
  "edge_type_loop np shared num_nodes [] self = Inr self"
| "edge_type_loop np shared num_nodes (type_name # rest) self =
     (case map_of shared type_name of
        None \<Rightarrow> Inl (KeyError_type type_name)
      | Some type_data \<Rightarrow>
          then_do (edge_loop (initial_adjacency num_nodes) (map snd (df_rows type_data)))
            (\<lambda>st. edge_type_loop np shared num_nodes rest
               (self\<lparr>edges_in_by_type := (edges_in_by_type self)
                       (type_name \<mapsto> numpyise (cast_iloc np (sources_dtype self)) (in_dict st)),
                     edges_out_by_type := (edges_out_by_type self)
                       (type_name \<mapsto> numpyise (cast_iloc np (sources_dtype self)) (out_dict st)),
                     edges_by_type := (edges_by_type self)
                       (type_name \<mapsto> numpyise (cast_iloc np (sources_dtype self)) (undirected st)),
                     weights_in_by_type := (weights_in_by_type self)
                       (type_name \<mapsto> numpyise (cast_weight np (weights_dtype self)) (in_weights st)),
                     weights_out_by_type := (weights_out_by_type self)
                       (type_name \<mapsto> numpyise (cast_weight np (weights_dtype self)) (out_weights st)),
                     weights_by_type := (weights_by_type self)
                       (type_name \<mapsto> numpyise (cast_weight np (weights_dtype self)) (und_weights st))\<rparr>)))"

definition EdgeData_init ::
  "('id, 'w, 'dt) casts \<Rightarrow> ('t::linorder \<times> ('id, 'w edge, 'dt, 'dt \<times> 'dt \<times> 'dt) dataframe) list \<Rightarrow>
   int \<Rightarrow> ('id, 't) error + ('id, 't, 'w, 'dt) EdgeData" where
  "EdgeData_init np shared num_nodes =
     then_do (ElementData_init (edge_concat_ops np) shared)
       (\<lambda>base.
          let self = \<lparr>id_index = id_index base,
                      columns = columns base,
                      column_dtypes = column_dtypes base,
                      type_index = type_index base,
                      type_column = type_column base,
                      type_element_ilocs = type_element_ilocs base,
                      sources = map (\<lambda>(src, tgt, wt). src) (columns base),
                      targets = map (\<lambda>(src, tgt, wt). tgt) (columns base),
                      weights = map (\<lambda>(src, tgt, wt). wt) (columns base),
                      all_type_names = sort (remdups (map fst shared)),
                      edges_in_by_type = Map.empty,
                      edges_out_by_type = Map.empty,
                      edges_by_type = Map.empty,
                      weights_in_by_type = Map.empty,
                      weights_out_by_type = Map.empty,
                      weights_by_type = Map.empty\<rparr>
          in edge_type_loop np shared num_nodes (all_type_names self) self)"

definition adj_lookup ::
  "('id, 't, 'w, 'dt) EdgeData \<Rightarrow> 't \<Rightarrow> bool \<Rightarrow> bool \<Rightarrow> ('id, 't) error + (int \<rightharpoonup> int list)" where
  "adj_lookup self type_name ins outs =
     (if ins \<and> outs then dict_get (edges_by_type self) type_name
      else if ins then dict_get (edges_in_by_type self) type_name
      else if outs then dict_get (edges_out_by_type self) type_name
      else Inl ValueError_ins_outs)"

definition weight_lookup ::
  "('id, 't, 'w, 'dt) EdgeData \<Rightarrow> 't \<Rightarrow> bool \<Rightarrow> bool \<Rightarrow> ('id, 't) error + (int \<rightharpoonup> 'w list)" where
  "weight_lookup self type_name ins outs =
     (if ins \<and> outs then dict_get (weights_by_type self) type_name
      else if ins then dict_get (weights_in_by_type self) type_name
      else if outs then dict_get (weights_out_by_type self) type_name
      else Inl ValueError_ins_outs)"

text \<open>
  \<^verbatim>\<open>degrees\<close> returns a \<^verbatim>\<open>defaultdict(int, ...)\<close>: a lookup that gives 0 at a key
  that was not stored.
\<close>

definition degrees ::
  "('id, 't, 'w, 'dt) EdgeData \<Rightarrow> 't \<Rightarrow> bool \<Rightarrow> bool \<Rightarrow> ('id, 't) error + (int \<Rightarrow> nat)" where
  "degrees self type_name ins outs =
     then_do (adj_lookup self type_name ins outs)
       (\<lambda>adj. Inr (\<lambda>key. case adj key of None \<Rightarrow> 0 | Some v \<Rightarrow> length v))"

definition neighbour_ilocs ::
  "('id, 't, 'w, 'dt) EdgeData \<Rightarrow> int \<Rightarrow> 't \<Rightarrow> bool \<Rightarrow> bool \<Rightarrow> ('id, 't) error + int list" where
  "neighbour_ilocs self node_id type_name ins outs =
     then_do (adj_lookup self type_name ins outs)
       (\<lambda>adj. case adj node_id of None \<Rightarrow> Inl (KeyError_node node_id) | Some v \<Rightarrow> Inr v)"

definition neighbour_weights ::
  "('id, 't, 'w, 'dt) EdgeData \<Rightarrow> int \<Rightarrow> 't \<Rightarrow> bool \<Rightarrow> bool \<Rightarrow> ('id, 't) error + 'w list" where
  "neighbour_weights self node_id type_name ins outs =
     then_do (weight_lookup self type_name ins outs)
       (\<lambda>adj. case adj node_id of None \<Rightarrow> Inl (KeyError_node node_id) | Some v \<Rightarrow> Inr v)"

section \<open>Notions the properties are stated with\<close>

text \<open>
  A value fits an unsigned integer type when it lies between 0 and the largest value of
  the type; a type is the minimal unsigned width for a value when the value fits and no
  unsigned type of fewer bytes holds it.
\<close>

definition itemsize :: "dtype \<Rightarrow> nat" where
  "itemsize d = (case d of UInt8 \<Rightarrow> 1 | UInt16 \<Rightarrow> 2 | UInt32 \<Rightarrow> 4 | UInt64 \<Rightarrow> 8 | Object \<Rightarrow> 8)"

definition holds_value :: "dtype \<Rightarrow> int \<Rightarrow> bool" where
  "holds_value d v = (case iinfo_max d of None \<Rightarrow> False | Some m \<Rightarrow> 0 \<le> v \<and> v \<le> m)"

definition minimal_uint_for :: "int \<Rightarrow> dtype \<Rightarrow> bool" where
  "minimal_uint_for v d =
     (holds_value d v \<and>
      list_all (\<lambda>d'. holds_value d' v \<longrightarrow> itemsize d \<le> itemsize d') [UInt8, UInt16, UInt32, UInt64])"


text \<open>
  The type names of a mapping in sorted order, the rows of the table of a type, the
  number of rows of the first \<open>k\<close> types in that order, the rows of all types in that
  order, and the tables in that order.
\<close>

definition type_names :: "('t::linorder \<times> 'v) list \<Rightarrow> 't list" where
  "type_names shared = sort (remdups (map fst shared))"

definition type_table ::
  "('t \<times> ('id, 'row, 'dt, 'cdt) dataframe) list \<Rightarrow> 't \<Rightarrow> ('id \<times> 'row) list" where
  "type_table shared t = (case map_of shared t of None \<Rightarrow> [] | Some df \<Rightarrow> df_rows df)"

definition range_start ::
  "('t::linorder \<times> ('id, 'row, 'dt, 'cdt) dataframe) list \<Rightarrow> nat \<Rightarrow> nat" where
  "range_start shared k =
     sum_list (map (\<lambda>t. length (type_table shared t)) (take k (type_names shared)))"

definition all_rows ::
  "('t::linorder \<times> ('id, 'row, 'dt, 'cdt) dataframe) list \<Rightarrow> ('id \<times> 'row) list" where
  "all_rows shared = concat (map (type_table shared) (type_names shared))"

definition frames_of ::
  "('t \<times> ('id, 'row, 'dt, 'cdt) dataframe) list \<Rightarrow> 't list \<Rightarrow>
   ('id, 'row, 'dt, 'cdt) dataframe list" where
  "frames_of shared ts =
     concat (map (\<lambda>t. case map_of shared t of None \<Rightarrow> [] | Some df \<Rightarrow> [df]) ts)"

text \<open>
  The dtype of the row index and the dtypes of the columns of a store, and what the
  store makes of a row label and of the values of a row: their conversion to these
  dtypes.
\<close>

definition store_index_dtype ::
  "('id, 'row, 'dt, 'cdt) concat_ops \<Rightarrow> ('t::linorder \<times> ('id, 'row, 'dt, 'cdt) dataframe) list \<Rightarrow> 'dt"
  where
  "store_index_dtype ops shared =
     common_type ops (map df_index_dtype (frames_of shared (type_names shared)))"

definition store_dtypes ::
  "('id, 'row, 'dt, 'cdt) concat_ops \<Rightarrow> ('t::linorder \<times> ('id, 'row, 'dt, 'cdt) dataframe) list \<Rightarrow> 'cdt"
  where
  "store_dtypes ops shared =
     common_columns ops (map df_dtypes (frames_of shared (type_names shared)))"

definition store_label ::
  "('id, 'row, 'dt, 'cdt) concat_ops \<Rightarrow> ('t::linorder \<times> ('id, 'row, 'dt, 'cdt) dataframe) list \<Rightarrow>
   'id \<Rightarrow> 'id" where
  "store_label ops shared label = astype_label ops (store_index_dtype ops shared) label"

definition store_row ::
  "('id, 'row, 'dt, 'cdt) concat_ops \<Rightarrow> ('t::linorder \<times> ('id, 'row, 'dt, 'cdt) dataframe) list \<Rightarrow>
   'row \<Rightarrow> 'row" where
  "store_row ops shared row = astype_row ops (store_dtypes ops shared) row"

definition store_labels ::
  "('id, 'row, 'dt, 'cdt) concat_ops \<Rightarrow> ('t::linorder \<times> ('id, 'row, 'dt, 'cdt) dataframe) list \<Rightarrow>
   'id list" where
  "store_labels ops shared = map (\<lambda>(label, row). store_label ops shared label) (all_rows shared)"




section \<open>Conversions for the examples\<close>

text \<open>
  Tables that all have one and the same dtype for their row index and for each column:
  the common dtype is that dtype and no conversion changes a value.
\<close>

definition one_dtype_ops :: "('id, 'row, unit, unit) concat_ops" where
  "one_dtype_ops =
     \<lparr>common_type = (\<lambda>dtypes. ()), astype_label = (\<lambda>dtype label. label),
      common_columns = (\<lambda>dtypes. ()), astype_row = (\<lambda>dtypes row. row)\<rparr>"

definition one_dtype_casts :: "('id, 'w, unit) casts" where
  "one_dtype_casts =
     \<lparr>result_dtype = (\<lambda>dtypes. ()), cast_label = (\<lambda>dtype label. label),
      cast_iloc = (\<lambda>dtype v. v), cast_weight = (\<lambda>dtype w. w)\<rparr>"

text \<open>
  numpy's dtypes int64, uint64, float64 and object with integer values: two equal
  dtypes have that dtype in common, object and anything have object, int64 and uint64
  have float64, float64 and an integer dtype have float64, and no dtype at all gives
  object. Conversion to int64 and to uint64 wraps around; conversion to float64 rounds
  an integer of more than 53 bits to the nearest integer with 53 significant bits,
  the even one of two.
\<close>

datatype num_dtype = np_int64 | np_uint64 | np_float64 | np_object

fun np_promote :: "num_dtype \<Rightarrow> num_dtype \<Rightarrow> num_dtype" where
  "np_promote np_object b = np_object"
| "np_promote a np_object = np_object"
| "np_promote np_float64 b = np_float64"
| "np_promote a np_float64 = np_float64"
| "np_promote np_int64 np_int64 = np_int64"
| "np_promote np_uint64 np_uint64 = np_uint64"
| "np_promote np_int64 np_uint64 = np_float64"
| "np_promote np_uint64 np_int64 = np_float64"

fun np_common_type :: "num_dtype list \<Rightarrow> num_dtype" where
  "np_common_type [] = np_object"
| "np_common_type (d # ds) = foldl np_promote d ds"

function bit_length :: "int \<Rightarrow> nat" where
  "bit_length n = (if n \<le> 0 then 0 else Suc (bit_length (n div 2)))"
  by pat_completeness auto
termination
  by (relation "measure nat") auto

definition round_float64 :: "int \<Rightarrow> int" where
  "round_float64 v =
     (let a = \<bar>v\<bar>; e = bit_length a - 53; q = a div 2 ^ e; r = a mod 2 ^ e
      in if e = 0 then v
         else sgn v * ((if 2 ^ e < 2 * r \<or> (2 * r = 2 ^ e \<and> odd q) then q + 1 else q) * 2 ^ e))"

fun np_cast_int :: "num_dtype \<Rightarrow> int \<Rightarrow> int" where
  "np_cast_int np_int64 v = wrap_int64 v"
| "np_cast_int np_uint64 v = v mod 2 ^ 64"
| "np_cast_int np_float64 v = round_float64 v"
| "np_cast_int np_object v = v"


text \<open>The same for tables without columns, as node tables may be.\<close>

definition numpy_index_ops :: "(int, unit, num_dtype, unit) concat_ops" where
  "numpy_index_ops =
     \<lparr>common_type = np_common_type, astype_label = np_cast_int,
      common_columns = (\<lambda>dtypes. ()), astype_row = (\<lambda>dtypes row. row)\<rparr>"

section \<open>Example stores\<close>

text \<open>
  The edge type of the degree example: edges \<open>(0, 1)\<close>, \<open>(1, 2)\<close> and the
  self-loop \<open>(2, 2)\<close> with weights 1, 2 and 3 over three nodes. The node types
  of the range example: \<open>A\<close> with three rows and \<open>B\<close> with five, passed in
  the order \<open>B\<close>, \<open>A\<close>, each with one feature per row.
\<close>

definition example_edges :: "(string \<times> (nat, int edge, unit, unit \<times> unit \<times> unit) dataframe) list" where
  "example_edges =
     [(''e'', \<lparr>df_index_dtype = (), df_dtypes = ((), (), ()),
              df_rows = [(10, (0, 1, 1)), (11, (1, 2, 2)), (12, (2, 2, 3))]\<rparr>)]"

definition example_nodes :: "(string \<times> (nat, unit, unit, unit) dataframe) list" where
  "example_nodes =
     [(''B'', \<lparr>df_index_dtype = (), df_dtypes = (),
              df_rows = [(13, ()), (14, ()), (15, ()), (16, ()), (17, ())]\<rparr>),
      (''A'', \<lparr>df_index_dtype = (), df_dtypes = (),
              df_rows = [(10, ()), (11, ()), (12, ())]\<rparr>)]"



definition mixed_index_nodes :: "(string \<times> (int, unit, num_dtype, unit) dataframe) list" where
  "mixed_index_nodes =
     [(''A'', \<lparr>df_index_dtype = np_uint64, df_dtypes = (),
              df_rows = [(9223372036854775809, ()), (9223372036854775810, ())]\<rparr>),
      (''B'', \<lparr>df_index_dtype = np_int64, df_dtypes = (),
              df_rows = [(- 1, ())]\<rparr>)]"

section \<open>Facts about the primitives\<close>

lemma get_loc_known:
  "x \<in> set xs \<Longrightarrow> 0 \<le> get_loc xs x \<and> get_loc xs x < int (length xs) \<and> xs ! nat (get_loc xs x) = x"
proof (induction xs)
  case Nil
  then show ?case by simp
next
  case (Cons y ys)
  show ?case
  proof (cases "x = y")
    case True
    then show ?thesis by simp
  next
    case False
    with Cons.prems have mem: "x \<in> set ys" by simp
    from Cons.IH [OF mem] have ih:
      "0 \<le> get_loc ys x" "get_loc ys x < int (length ys)" "ys ! nat (get_loc ys x) = x"
      by simp_all
    from ih False show ?thesis
      by (simp add: Let_def nat_add_distrib)
  qed
qed

lemma get_loc_unknown: "x \<notin> set xs \<Longrightarrow> get_loc xs x = - 1"
  by (induction xs) (auto simp: Let_def)

lemma get_loc_nth: "distinct xs \<Longrightarrow> k < length xs \<Longrightarrow> get_loc xs (xs ! k) = int k"
proof (induction xs arbitrary: k)
  case Nil
  then show ?case by simp
next
  case (Cons y ys)
  show ?case
  proof (cases k)
    case 0
    then show ?thesis by simp
  next
    case (Suc j)
    with Cons.prems have j: "j < length ys" and d: "distinct ys" and ne: "ys ! j \<noteq> y"
      by auto
    from Cons.IH [OF d j] Suc ne show ?thesis
      by (simp add: Let_def)
  qed
qed

lemma np_astype_min_scalar_type_id:
  "0 \<le> v \<Longrightarrow> v \<le> int n \<Longrightarrow> np_astype (np_min_scalar_type n) v = v"
  by (simp add: np_min_scalar_type_def)

lemma np_item_in_range:
  "0 \<le> i \<Longrightarrow> i < int (length xs) \<Longrightarrow> np_item xs i = Inr (xs ! nat i)"
  by (simp add: np_item_def)

lemma mask_select_Cons: "mask_select (x # xs) (b # bs) = (if b then x # mask_select xs bs else mask_select xs bs)"
  by (simp add: mask_select_def)

lemma mask_select_Nil: "mask_select [] bs = []"
  by (simp add: mask_select_def)

lemma count_list_pos: "0 < count_list xs x \<longleftrightarrow> x \<in> set xs"
  by (induction xs) auto

lemma count_list_Cons_gt1:
  "1 < count_list (y # ys) z \<longleftrightarrow> (if z = y then z \<in> set ys else 1 < count_list ys z)"
  using count_list_pos [of ys y] by simp

lemma set_mask_duplicated_from:
  "set (mask_select xs (duplicated_from seen xs)) = {x \<in> set xs. x \<in> set seen \<or> 1 < count_list xs x}"
proof (induction xs arbitrary: seen)
  case Nil
  then show ?case by (simp add: mask_select_Nil)
next
  case (Cons y ys)
  let ?M = "mask_select ys (duplicated_from (y # seen) ys)"
  have m: "set ?M = {x \<in> set ys. x = y \<or> x \<in> set seen \<or> 1 < count_list ys x}"
    using Cons.IH [of "y # seen"] by simp
  have "set (mask_select (y # ys) (duplicated_from seen (y # ys))) =
          (if y \<in> set seen then {y} else {}) \<union> set ?M"
    by (simp add: mask_select_Cons)
  also have "\<dots> = {x \<in> set (y # ys). x \<in> set seen \<or> 1 < count_list (y # ys) x}"
    unfolding m count_list_Cons_gt1 by auto
  finally show ?case .
qed

section \<open>Facts about the identifier index\<close>

lemma get_loc_valid_iff:
  "0 \<le> get_loc xs x \<and> get_loc xs x < int (length xs) \<longleftrightarrow> x \<in> set xs"
  by (cases "x \<in> set xs") (simp_all add: get_loc_known get_loc_unknown)

lemma mask_select_map: "mask_select xs (map P xs) = filter P xs"
  by (induction xs) (simp_all add: mask_select_def)

lemma init_Inr:
  "ExternalIdIndex_init ids = Inr self \<Longrightarrow>
     distinct ids \<and> index self = ids \<and> dtype self = np_min_scalar_type (length ids)"
  by (auto simp: ExternalIdIndex_init_def Let_def split: if_splits)

lemma init_distinct:
  "distinct ids \<Longrightarrow>
     ExternalIdIndex_init ids = Inr \<lparr>index = ids, dtype = np_min_scalar_type (length ids)\<rparr>"
  by (simp add: ExternalIdIndex_init_def)

lemma min_scalar_type_max:
  "n < 2 ^ 64 \<Longrightarrow>
     \<exists>m. iinfo_max (np_min_scalar_type n) = Some m \<and> int n \<le> m \<and>
         np_astype (np_min_scalar_type n) (- 1) = m"
  by (simp add: np_min_scalar_type_def)

lemma min_scalar_type_minimal:
  "n < 2 ^ 64 \<Longrightarrow> minimal_uint_for (int n) (np_min_scalar_type n)"
  by (simp add: np_min_scalar_type_def minimal_uint_for_def holds_value_def itemsize_def)

lemma is_valid_get_indexer:
  "is_valid self (pd_get_indexer (index self) ids) = map (\<lambda>x. x \<in> set (index self)) ids"
  by (simp add: is_valid_def pd_get_indexer_def len_index_def get_loc_valid_iff)

lemma require_valid_get_indexer:
  "require_valid self ids (pd_get_indexer (index self) ids) =
     (if set ids \<subseteq> set (index self) then Inr ()
      else (let missing = filter (\<lambda>x. x \<notin> set (index self)) ids
            in if length missing = 1 then Inl (KeyError_value (hd missing))
               else Inl (KeyError_values missing)))"
proof -
  have a: "list_all id (map (\<lambda>x. x \<in> set (index self)) ids) \<longleftrightarrow> set ids \<subseteq> set (index self)"
    by (auto simp: list_all_iff)
  have b: "mask_select ids (map Not (map (\<lambda>x. x \<in> set (index self)) ids)) =
             filter (\<lambda>x. x \<notin> set (index self)) ids"
    using mask_select_map [of ids "\<lambda>x. x \<notin> set (index self)"] by (simp add: comp_def)
  show ?thesis
    unfolding require_valid_def is_valid_get_indexer Let_def a b by simp
qed

lemma to_iloc_nonstrict:
  "to_iloc self ids smaller_type False =
     Inr (map (\<lambda>x. if smaller_type then np_astype (dtype self) (get_loc (index self) x)
                    else get_loc (index self) x) ids)"
  by (simp add: to_iloc_def pd_get_indexer_def Let_def)

lemma to_iloc_strict:
  "to_iloc self ids smaller_type True =
     (if set ids \<subseteq> set (index self) then to_iloc self ids smaller_type False
      else (let missing = filter (\<lambda>x. x \<notin> set (index self)) ids
            in if length missing = 1 then Inl (KeyError_value (hd missing))
               else Inl (KeyError_values missing)))"
  by (simp add: to_iloc_def require_valid_get_indexer Let_def)

lemma to_iloc_known:
  assumes "ExternalIdIndex_init ids = Inr self" and "set qs \<subseteq> set ids"
  shows "to_iloc self qs smaller_type strict = Inr (map (get_loc ids) qs)"
proof -
  from assms(1) have ix: "index self = ids" and dt: "dtype self = np_min_scalar_type (length ids)"
    by (simp_all add: init_Inr)
  have "np_astype (np_min_scalar_type (length ids)) (get_loc ids q) = get_loc ids q"
    if "q \<in> set qs" for q
  proof -
    from that assms(2) have "q \<in> set ids" by blast
    from get_loc_known [OF this] show ?thesis
      by (intro np_astype_min_scalar_type_id) simp_all
  qed
  then have ns: "to_iloc self qs smaller_type False = Inr (map (get_loc ids) qs)"
    by (simp add: to_iloc_nonstrict ix dt)
  show ?thesis
  proof (cases strict)
    case True
    with ns assms(2) show ?thesis by (simp add: to_iloc_strict ix)
  next
    case False
    with ns show ?thesis by simp
  qed
qed

lemma np_take_in_range:
  "\<forall>i\<in>set js. 0 \<le> i \<and> i < int (length xs) \<Longrightarrow> np_take xs js = Inr (map (\<lambda>i. xs ! nat i) js)"
  by (induction js) (simp_all add: np_item_in_range)


section \<open>The identifier index: properties\<close>

text \<open>
  C7. For every constructed identifier index and every identifier it contains,
  \<^verbatim>\<open>from_iloc(to_iloc([id])) == [id]\<close>, whatever the flags \<^verbatim>\<open>smaller_type\<close>
  and \<^verbatim>\<open>strict\<close>.
\<close>

theorem from_iloc_to_iloc_roundtrip:
  assumes "ExternalIdIndex_init ids = Inr self" and "contains_external self x"
  shows "then_do (to_iloc self [x] smaller_type strict) (from_iloc self) = Inr [x]"
proof -
  from assms(1) have ix: "index self = ids" by (simp add: init_Inr)
  with assms(2) have mem: "x \<in> set ids" by (simp add: contains_external_def)
  then have t: "to_iloc self [x] smaller_type strict = Inr [get_loc ids x]"
    using to_iloc_known [OF assms(1), of "[x]"] by simp
  from get_loc_known [OF mem] have "from_iloc self [get_loc ids x] = Inr [x]"
    by (simp add: from_iloc_def ix np_item_in_range)
  with t show ?thesis by (simp add: then_do_def)
qed

theorem from_iloc_to_iloc_roundtrip_witness:
  "ExternalIdIndex_init [''a'', ''b'', ''c''] = Inr \<lparr>index = [''a'', ''b'', ''c''], dtype = UInt8\<rparr> \<and>
   contains_external \<lparr>index = [''a'', ''b'', ''c''], dtype = UInt8\<rparr> ''b'' \<and>
   to_iloc \<lparr>index = [''a'', ''b'', ''c''], dtype = UInt8\<rparr> [''b''] True False = Inr [1] \<and>
   then_do (to_iloc \<lparr>index = [''a'', ''b'', ''c''], dtype = UInt8\<rparr> [''b''] True False)
     (from_iloc \<lparr>index = [''a'', ''b'', ''c''], dtype = UInt8\<rparr>) = Inr [''b'']"
proof -
  let ?self = "\<lparr>index = [''a'', ''b'', ''c''], dtype = UInt8\<rparr>"
  have init: "ExternalIdIndex_init [''a'', ''b'', ''c''] = Inr ?self"
    by (simp add: ExternalIdIndex_init_def np_min_scalar_type_def)
  have mem: "contains_external ?self ''b''"
    by (simp add: contains_external_def)
  have t: "to_iloc ?self [''b''] True False = Inr [1]"
    by (simp add: to_iloc_def pd_get_indexer_def)
  from init mem t from_iloc_to_iloc_roundtrip [OF init mem, of True False]
  show ?thesis by simp
qed

section \<open>The identifier index: sentinel, width and out-of-range ilocs\<close>

lemma np_item_negative:
  "- int (length xs) \<le> i \<Longrightarrow> i < 0 \<Longrightarrow> np_item xs i = Inr (xs ! nat (i + int (length xs)))"
  by (simp add: np_item_def)

lemma np_item_outside:
  "int (length xs) \<le> i \<or> i < - int (length xs) \<Longrightarrow> np_item xs i = Inl (i, length xs)"
  by (auto simp: np_item_def)

text \<open>
  C1. For an index built from fewer than \<open>2 ^ 64\<close> identifiers and any queried
  identifiers, \<^verbatim>\<open>to_iloc\<close> without \<^verbatim>\<open>strict\<close> returns one iloc per query: for
  a known identifier its position in the index, for an unknown one the sentinel, which
  is the largest value of the compact type when \<^verbatim>\<open>smaller_type\<close> is true and
  \<open>-1\<close> when it is false. With \<^verbatim>\<open>strict\<close>, the call gives the same result when
  every identifier is known and otherwise fails with the KeyError of
  \<^verbatim>\<open>require_valid\<close>, which carries the one unknown identifier, or all of them
  when there are several.
\<close>

theorem to_iloc_sentinel_and_strict:
  assumes "ExternalIdIndex_init known = Inr self" and "length known < 2 ^ 64"
  shows "(\<exists>ilocs m.
            to_iloc self ids smaller_type False = Inr ilocs \<and> length ilocs = length ids \<and>
            iinfo_max (dtype self) = Some m \<and>
            (\<forall>k < length ids.
               if contains_external self (ids ! k)
               then 0 \<le> ilocs ! k \<and> ilocs ! k < int (len_index self) \<and>
                    index self ! nat (ilocs ! k) = ids ! k
               else ilocs ! k = (if smaller_type then m else - 1))) \<and>
         (list_all (contains_external self) ids \<longrightarrow>
            to_iloc self ids smaller_type True = to_iloc self ids smaller_type False) \<and>
         (\<not> list_all (contains_external self) ids \<longrightarrow>
            (\<exists>e. to_iloc self ids smaller_type True = Inl e \<and>
                 require_valid self ids (pd_get_indexer (index self) ids) = Inl e \<and>
                 e = (let missing = filter (\<lambda>x. \<not> contains_external self x) ids
                      in if length missing = 1 then KeyError_value (hd missing)
                         else KeyError_values missing)))"
proof -
  from assms(1) have ix: "index self = known" and dt: "dtype self = np_min_scalar_type (length known)"
    by (simp_all add: init_Inr)
  from min_scalar_type_max [OF assms(2)] obtain m where
    m: "iinfo_max (np_min_scalar_type (length known)) = Some m" "int (length known) \<le> m"
       "np_astype (np_min_scalar_type (length known)) (- 1) = m"
    by blast
  let ?f = "\<lambda>x. if smaller_type then np_astype (dtype self) (get_loc known x) else get_loc known x"
  have each: "if contains_external self (ids ! k)
              then 0 \<le> map ?f ids ! k \<and> map ?f ids ! k < int (len_index self) \<and>
                   index self ! nat (map ?f ids ! k) = ids ! k
              else map ?f ids ! k = (if smaller_type then m else - 1)"
    if k: "k < length ids" for k
  proof (cases "ids ! k \<in> set known")
    case True
    from get_loc_known [OF True] have g:
      "0 \<le> get_loc known (ids ! k)" "get_loc known (ids ! k) < int (length known)"
      "known ! nat (get_loc known (ids ! k)) = ids ! k"
      by simp_all
    from g have "np_astype (np_min_scalar_type (length known)) (get_loc known (ids ! k)) =
                   get_loc known (ids ! k)"
      by (intro np_astype_min_scalar_type_id) simp_all
    with True g k show ?thesis
      by (simp add: contains_external_def len_index_def ix dt)
  next
    case False
    with k m(3) show ?thesis
      by (simp add: contains_external_def ix dt get_loc_unknown)
  qed
  have part1: "\<exists>ilocs m.
            to_iloc self ids smaller_type False = Inr ilocs \<and> length ilocs = length ids \<and>
            iinfo_max (dtype self) = Some m \<and>
            (\<forall>k < length ids.
               if contains_external self (ids ! k)
               then 0 \<le> ilocs ! k \<and> ilocs ! k < int (len_index self) \<and>
                    index self ! nat (ilocs ! k) = ids ! k
               else ilocs ! k = (if smaller_type then m else - 1))"
  proof (intro exI conjI allI impI)
    show "to_iloc self ids smaller_type False = Inr (map ?f ids)"
      by (simp add: to_iloc_nonstrict ix)
    show "length (map ?f ids) = length ids" by simp
    show "iinfo_max (dtype self) = Some m" by (simp add: dt m(1))
    show "if contains_external self (ids ! k)
          then 0 \<le> map ?f ids ! k \<and> map ?f ids ! k < int (len_index self) \<and>
               index self ! nat (map ?f ids ! k) = ids ! k
          else map ?f ids ! k = (if smaller_type then m else - 1)"
      if "k < length ids" for k
      by (rule each [OF that])
  qed
  have all_iff: "list_all (contains_external self) ids \<longleftrightarrow> set ids \<subseteq> set (index self)"
    by (auto simp: list_all_iff contains_external_def)
  have part2: "list_all (contains_external self) ids \<longrightarrow>
            to_iloc self ids smaller_type True = to_iloc self ids smaller_type False"
    by (simp add: all_iff to_iloc_strict)
  have part3: "\<not> list_all (contains_external self) ids \<longrightarrow>
            (\<exists>e. to_iloc self ids smaller_type True = Inl e \<and>
                 require_valid self ids (pd_get_indexer (index self) ids) = Inl e \<and>
                 e = (let missing = filter (\<lambda>x. \<not> contains_external self x) ids
                      in if length missing = 1 then KeyError_value (hd missing)
                         else KeyError_values missing))"
    by (simp add: all_iff to_iloc_strict require_valid_get_indexer Let_def contains_external_def)
  from part1 part2 part3 show ?thesis by blast
qed

theorem to_iloc_sentinel_and_strict_witness:
  "ExternalIdIndex_init [''a'', ''b'', ''c''] = Inr \<lparr>index = [''a'', ''b'', ''c''], dtype = UInt8\<rparr> \<and>
   length [''a'', ''b'', ''c''] < (2::nat) ^ 64 \<and>
   to_iloc \<lparr>index = [''a'', ''b'', ''c''], dtype = UInt8\<rparr> [''c'', ''missing''] True False = Inr [2, 255] \<and>
   to_iloc \<lparr>index = [''a'', ''b'', ''c''], dtype = UInt8\<rparr> [''c'', ''missing''] False False = Inr [2, - 1] \<and>
   iinfo_max (dtype \<lparr>index = [''a'', ''b'', ''c''], dtype = UInt8\<rparr>) = Some 255 \<and>
   to_iloc \<lparr>index = [''a'', ''b'', ''c''], dtype = UInt8\<rparr> [''missing''] True True =
     Inl (KeyError_value ''missing'') \<and>
   to_iloc \<lparr>index = [''a'', ''b'', ''c''], dtype = UInt8\<rparr> [''c'', ''a''] True True = Inr [2, 0]"
proof -
  let ?self = "\<lparr>index = [''a'', ''b'', ''c''], dtype = UInt8\<rparr>"
  have init: "ExternalIdIndex_init [''a'', ''b'', ''c''] = Inr ?self"
    by (simp add: ExternalIdIndex_init_def np_min_scalar_type_def)
  have len: "length [''a'', ''b'', ''c''] < (2::nat) ^ 64" by simp
  have a: "to_iloc ?self [''c'', ''missing''] True False = Inr [2, 255]"
    by (simp add: to_iloc_def pd_get_indexer_def)
  have b: "to_iloc ?self [''c'', ''missing''] False False = Inr [2, - 1]"
    by (simp add: to_iloc_def pd_get_indexer_def)
  have c: "to_iloc ?self [''c'', ''a''] True False = Inr [2, 0]"
    by (simp add: to_iloc_def pd_get_indexer_def)
  have d: "\<not> list_all (contains_external ?self) [''missing'']"
    by (simp add: contains_external_def)
  have e: "list_all (contains_external ?self) [''c'', ''a'']"
    by (simp add: contains_external_def)
  from to_iloc_sentinel_and_strict [OF init len, of "[''missing'']" True] d
  have f: "to_iloc ?self [''missing''] True True = Inl (KeyError_value ''missing'')"
    by (simp add: contains_external_def)
  from to_iloc_sentinel_and_strict [OF init len, of "[''c'', ''a'']" True] e c
  have g: "to_iloc ?self [''c'', ''a''] True True = Inr [2, 0]"
    by simp
  from init len a b f g show ?thesis by simp
qed

text \<open>
  C10. For an index built from fewer than \<open>2 ^ 64\<close> identifiers, the compact
  sentinel that \<^verbatim>\<open>to_iloc\<close> returns for an unknown identifier is \<open>-1\<close> wrapped
  into the compact type, that is the largest value of the type; it is at least the
  length of the index, \<^verbatim>\<open>is_valid\<close> flags it false, and no known identifier is
  mapped to it.
\<close>

theorem sentinel_not_below_length:
  assumes "ExternalIdIndex_init ids = Inr self" and "length ids < 2 ^ 64"
    and "\<not> contains_external self x"
  shows "\<exists>s. to_iloc self [x] True False = Inr [s] \<and>
              s = np_astype (dtype self) (- 1) \<and>
              iinfo_max (dtype self) = Some s \<and>
              int (len_index self) \<le> s \<and>
              is_valid self [s] = [False] \<and>
              (\<forall>y. contains_external self y \<longrightarrow> to_iloc self [y] True False \<noteq> Inr [s])"
proof -
  from assms(1) have ix: "index self = ids" and dt: "dtype self = np_min_scalar_type (length ids)"
    by (simp_all add: init_Inr)
  from min_scalar_type_max [OF assms(2)] obtain m where
    m: "iinfo_max (np_min_scalar_type (length ids)) = Some m" "int (length ids) \<le> m"
       "np_astype (np_min_scalar_type (length ids)) (- 1) = m"
    by blast
  from assms(3) have "x \<notin> set ids" by (simp add: contains_external_def ix)
  then have t: "to_iloc self [x] True False = Inr [m]"
    by (simp add: to_iloc_nonstrict ix dt get_loc_unknown m(3))
  have v: "is_valid self [m] = [False]"
    using m(2) by (simp add: is_valid_def len_index_def ix)
  have "to_iloc self [y] True False \<noteq> Inr [m]" if "contains_external self y" for y
  proof -
    from that have mem: "y \<in> set ids" by (simp add: contains_external_def ix)
    from to_iloc_known [OF assms(1), of "[y]" True False] mem
    have "to_iloc self [y] True False = Inr [get_loc ids y]" by simp
    moreover from get_loc_known [OF mem] m(2) have "get_loc ids y \<noteq> m" by simp
    ultimately show ?thesis by simp
  qed
  with t v m show ?thesis
    by (simp add: dt len_index_def ix)
qed

theorem sentinel_not_below_length_witness:
  "ExternalIdIndex_init [''a'', ''b'', ''c''] = Inr \<lparr>index = [''a'', ''b'', ''c''], dtype = UInt8\<rparr> \<and>
   length [''a'', ''b'', ''c''] < (2::nat) ^ 64 \<and>
   \<not> contains_external \<lparr>index = [''a'', ''b'', ''c''], dtype = UInt8\<rparr> ''missing'' \<and>
   to_iloc \<lparr>index = [''a'', ''b'', ''c''], dtype = UInt8\<rparr> [''missing''] True False = Inr [255] \<and>
   int (len_index \<lparr>index = [''a'', ''b'', ''c''], dtype = UInt8\<rparr>) \<le> 255 \<and>
   is_valid \<lparr>index = [''a'', ''b'', ''c''], dtype = UInt8\<rparr> [255] = [False]"
proof -
  let ?self = "\<lparr>index = [''a'', ''b'', ''c''], dtype = UInt8\<rparr>"
  have init: "ExternalIdIndex_init [''a'', ''b'', ''c''] = Inr ?self"
    by (simp add: ExternalIdIndex_init_def np_min_scalar_type_def)
  have len: "length [''a'', ''b'', ''c''] < (2::nat) ^ 64" by simp
  have un: "\<not> contains_external ?self ''missing''"
    by (simp add: contains_external_def)
  from sentinel_not_below_length [OF init len un] init len un
  show ?thesis by simp
qed

text \<open>
  C4, as amended. The compact type of an index built from \<open>n < 2 ^ 64\<close> identifiers
  is the minimal unsigned integer type that holds \<open>n\<close> itself. It is not always the
  minimal type for \<open>n - 1\<close>: 256 identifiers get a 16-bit type although 255, the
  largest iloc, fits 8 bits.
\<close>

theorem compact_width_holds_length:
  assumes "ExternalIdIndex_init ids = Inr self" and "length ids < 2 ^ 64"
  shows "minimal_uint_for (int (length ids)) (dtype self)"
  using assms by (simp add: init_Inr min_scalar_type_minimal)

theorem compact_width_holds_length_witness:
  "ExternalIdIndex_init [0..<256] = Inr \<lparr>index = [0..<256], dtype = UInt16\<rparr> \<and>
   length [0..<256] < (2::nat) ^ 64 \<and>
   minimal_uint_for (int (length [0..<256])) UInt16"
proof -
  have init: "ExternalIdIndex_init [0..<256] = Inr \<lparr>index = [0..<256], dtype = UInt16\<rparr>"
    by (simp add: ExternalIdIndex_init_def np_min_scalar_type_def)
  have len: "length [0..<256] < (2::nat) ^ 64" by simp
  from compact_width_holds_length [OF init len] init len show ?thesis by simp
qed

text \<open>
  An index of 256 identifiers: its largest iloc 255 fits the 8-bit type, and the
  constructor derives the 16-bit type.
\<close>

theorem compact_width_counterexample:
  "ExternalIdIndex_init [0..<256] = Inr \<lparr>index = [0..<256], dtype = UInt16\<rparr> \<and>
   int (length [0..<256]) - 1 = 255 \<and>
   minimal_uint_for 255 UInt8 \<and>
   \<not> minimal_uint_for 255 UInt16"
  by (simp add: ExternalIdIndex_init_def np_min_scalar_type_def minimal_uint_for_def
        holds_value_def itemsize_def)

text \<open>
  C5, as amended. \<^verbatim>\<open>from_iloc\<close> at an iloc outside \<open>[0, length)\<close> returns an
  identifier only for a negative iloc down to \<open>-length\<close>, which counts from the end
  of the index; at an iloc of at least \<open>length\<close> or below \<open>-length\<close> it raises
  IndexError. So the call with the iloc \<open>length\<close> itself raises.
\<close>

theorem from_iloc_out_of_range:
  "(- int (len_index self) \<le> i \<and> i < 0 \<longrightarrow>
      from_iloc self [i] = Inr [index self ! nat (i + int (len_index self))]) \<and>
   (int (len_index self) \<le> i \<or> i < - int (len_index self) \<longrightarrow>
      from_iloc self [i] = Inl (IndexError i (len_index self)))"
  by (auto simp: from_iloc_def len_index_def np_item_negative np_item_outside)

theorem from_iloc_out_of_range_witness:
  "from_iloc \<lparr>index = [''a'', ''b'', ''c''], dtype = UInt8\<rparr> [- 1] = Inr [''c''] \<and>
   from_iloc \<lparr>index = [''a'', ''b'', ''c''], dtype = UInt8\<rparr> [255] = Inl (IndexError 255 3) \<and>
   from_iloc \<lparr>index = [''a'', ''b'', ''c''], dtype = UInt8\<rparr> [- 4] = Inl (IndexError (- 4) 3)"
  using from_iloc_out_of_range [of "\<lparr>index = [''a'', ''b'', ''c''], dtype = UInt8\<rparr>" "- 1"]
    from_iloc_out_of_range [of "\<lparr>index = [''a'', ''b'', ''c''], dtype = UInt8\<rparr>" 255]
    from_iloc_out_of_range [of "\<lparr>index = [''a'', ''b'', ''c''], dtype = UInt8\<rparr>" "- 4"]
  by (simp add: len_index_def)

text \<open>
  An index of three identifiers: the iloc 3 is not valid, and \<^verbatim>\<open>from_iloc\<close> raises
  IndexError at it.
\<close>

theorem from_iloc_raises_counterexample:
  "ExternalIdIndex_init [''a'', ''b'', ''c''] = Inr \<lparr>index = [''a'', ''b'', ''c''], dtype = UInt8\<rparr> \<and>
   is_valid \<lparr>index = [''a'', ''b'', ''c''], dtype = UInt8\<rparr> [3] = [False] \<and>
   from_iloc \<lparr>index = [''a'', ''b'', ''c''], dtype = UInt8\<rparr> [3] = Inl (IndexError 3 3)"
  by (simp add: ExternalIdIndex_init_def np_min_scalar_type_def is_valid_def len_index_def
        from_iloc_def np_item_def)

section \<open>Facts about the element store\<close>

lemma then_do_Inl [simp]: "then_do (Inl e) f = Inl e"
  by (simp add: then_do_def)

lemma then_do_Inr [simp]: "then_do (Inr x) f = f x"
  by (simp add: then_do_def)


lemma type_names_props:
  "sorted (type_names shared)" "distinct (type_names shared)"
  "set (type_names shared) = fst ` set shared"
  by (simp_all add: type_names_def)

lemma map_of_key: "t \<in> fst ` set shared \<Longrightarrow> \<exists>df. map_of shared t = Some df"
  by (cases "map_of shared t") (auto simp: map_of_eq_None_iff)

lemma type_names_lookup:
  "t \<in> set (type_names shared) \<Longrightarrow>
     map_option df_rows (map_of shared t) = Some (type_table shared t)"
  using map_of_key [of t shared] by (auto simp: type_names_props type_table_def)

lemma frames_of_Nil: "frames_of shared [] = []"
  by (simp add: frames_of_def)

lemma frames_of_Cons:
  "map_of shared t = Some df \<Longrightarrow> frames_of shared (t # ts) = df # frames_of shared ts"
  by (simp add: frames_of_def)

lemma frames_of_rows:
  "set ts \<subseteq> fst ` set shared \<Longrightarrow>
     concat (map df_rows (frames_of shared ts)) = concat (map (type_table shared) ts)"
proof (induction ts)
  case Nil
  then show ?case by (simp add: frames_of_Nil)
next
  case (Cons t ts)
  from Cons.prems obtain df where df: "map_of shared t = Some df"
    using map_of_key [of t shared] by auto
  from Cons df show ?case
    by (simp add: frames_of_Cons type_table_def)
qed

lemma type_loop_result:
  assumes "set ts \<subseteq> fst ` set shared"
  shows "\<exists>m'. type_loop shared ts (m, rows, sizes, dfs) =
           Inr (m', rows + sum_list (map (\<lambda>t. length (type_table shared t)) ts),
                sizes @ map (\<lambda>t. length (type_table shared t)) ts,
                dfs @ frames_of shared ts) \<and>
         (\<forall>t. t \<notin> set ts \<longrightarrow> m' t = m t) \<and>
         (distinct ts \<longrightarrow>
            (\<forall>k < length ts.
               m' (ts ! k) =
                 Some (rows + sum_list (map (\<lambda>t. length (type_table shared t)) (take k ts)),
                       rows + sum_list (map (\<lambda>t. length (type_table shared t)) (take (Suc k) ts)))))"
  using assms
proof (induction ts arbitrary: m rows sizes dfs)
  case Nil
  then show ?case by (simp add: frames_of_Nil)
next
  case (Cons t ts)
  let ?len = "\<lambda>t. length (type_table shared t)"
  from Cons.prems have key: "t \<in> fst ` set shared" and sub: "set ts \<subseteq> fst ` set shared"
    by simp_all
  from key obtain df where df: "map_of shared t = Some df"
    using map_of_key by fastforce
  then have tbl: "type_table shared t = df_rows df" by (simp add: type_table_def)
  from Cons.IH [OF sub, of "m(t \<mapsto> (rows, rows + length (df_rows df)))" "rows + length (df_rows df)"
      "sizes @ [length (df_rows df)]" "dfs @ [df]"]
  obtain m' where
    run: "type_loop shared ts (m(t \<mapsto> (rows, rows + length (df_rows df))), rows + length (df_rows df),
            sizes @ [length (df_rows df)], dfs @ [df]) =
          Inr (m', rows + length (df_rows df) + sum_list (map ?len ts),
               (sizes @ [length (df_rows df)]) @ map ?len ts, (dfs @ [df]) @ frames_of shared ts)"
    and frame: "\<And>u. u \<notin> set ts \<Longrightarrow> m' u = (m(t \<mapsto> (rows, rows + length (df_rows df)))) u"
    and at: "distinct ts \<Longrightarrow> k < length ts \<Longrightarrow>
           m' (ts ! k) = Some (rows + length (df_rows df) + sum_list (map ?len (take k ts)),
                               rows + length (df_rows df) + sum_list (map ?len (take (Suc k) ts)))" for k
    by blast
  have 1: "type_loop shared (t # ts) (m, rows, sizes, dfs) =
           Inr (m', rows + sum_list (map ?len (t # ts)), sizes @ map ?len (t # ts),
                dfs @ frames_of shared (t # ts))"
    using run by (simp add: df tbl Let_def add.assoc frames_of_Cons)
  have 2: "m' u = m u" if "u \<notin> set (t # ts)" for u
    using that frame [of u] by simp
  have 3: "m' ((t # ts) ! k) =
             Some (rows + sum_list (map ?len (take k (t # ts))),
                   rows + sum_list (map ?len (take (Suc k) (t # ts))))"
    if d: "distinct (t # ts)" and k: "k < length (t # ts)" for k
  proof (cases k)
    case 0
    from d have "t \<notin> set ts" by simp
    from frame [OF this] 0 show ?thesis by (simp add: tbl)
  next
    case (Suc j)
    with d k at [of j] show ?thesis by (simp add: tbl add.assoc)
  qed
  from 1 2 3 show ?case by blast
qed

lemma sum_take_mono:
  "a \<le> b \<Longrightarrow> sum_list (map f (take a xs)) \<le> sum_list (map (f :: 'a \<Rightarrow> nat) (take b xs))"
proof -
  assume "a \<le> b"
  then have "take b xs = take a xs @ take (b - a) (drop a xs)"
    by (metis le_add_diff_inverse take_add)
  then show ?thesis by simp
qed

lemma sum_take_Suc:
  "k < length xs \<Longrightarrow>
     sum_list (map f (take (Suc k) xs)) = sum_list (map f (take k xs)) + (f (xs ! k) :: nat)"
  by (simp add: take_Suc_conv_app_nth)

lemma prefix_sum_cover:
  "i < sum_list (map f xs) \<Longrightarrow>
     \<exists>k < length xs. sum_list (map f (take k xs)) \<le> i \<and>
        i < sum_list (map (f :: 'a \<Rightarrow> nat) (take (Suc k) xs))"
proof (induction xs arbitrary: i)
  case Nil
  then show ?case by simp
next
  case (Cons x xs)
  show ?case
  proof (cases "i < f x")
    case True
    then show ?thesis by (intro exI [of _ 0]) simp
  next
    case False
    with Cons.prems have "i - f x < sum_list (map f xs)" by simp
    from Cons.IH [OF this] obtain k where
      k: "k < length xs" "sum_list (map f (take k xs)) \<le> i - f x"
         "i - f x < sum_list (map f (take (Suc k) xs))"
      by blast
    with False show ?thesis by (intro exI [of _ "Suc k"]) (simp, arith)
  qed
qed

lemma concat_nth_block:
  "k < length xss \<Longrightarrow> j < length (xss ! k) \<Longrightarrow>
     concat xss ! (sum_list (map length (take k xss)) + j) = xss ! k ! j"
proof -
  assume k: "k < length xss" and j: "j < length (xss ! k)"
  from k have "concat xss = concat (take k xss) @ xss ! k @ concat (drop (Suc k) xss)"
    by (metis concat.simps(2) concat_append id_take_nth_drop)
  moreover have "length (concat (take k xss)) = sum_list (map length (take k xss))"
    by (simp add: length_concat take_map)
  ultimately show ?thesis using j
    by (metis nth_append_length_plus nth_append)
qed

lemma np_repeat_nth:
  "length xs = length ns \<Longrightarrow> k < length ns \<Longrightarrow> j < ns ! k \<Longrightarrow>
     np_repeat xs ns ! (sum_list (take k ns) + j) = xs ! k"
proof -
  assume len: "length xs = length ns" and k: "k < length ns" and j: "j < ns ! k"
  let ?blocks = "map (\<lambda>(x, n). replicate n x) (zip xs ns)"
  have l: "length ?blocks = length ns" using len by simp
  have b: "?blocks ! k = replicate (ns ! k) (xs ! k)" using len k by simp
  have "map length ?blocks = ns"
    using len by (intro nth_equalityI) simp_all
  then have s: "sum_list (map length (take k ?blocks)) = sum_list (take k ns)"
    by (simp flip: take_map)
  from concat_nth_block [of k ?blocks j] l k b j s show ?thesis
    by (simp add: np_repeat_def)
qed

lemma pd_concat_Nil: "pd_concat ops [] = empty_frame ops"
  by (simp add: pd_concat_def empty_frame_def)

lemma store_frame:
  "(if frames_of shared (type_names shared) \<noteq> []
    then pd_concat ops (frames_of shared (type_names shared)) else empty_frame ops) =
   \<lparr>df_index_dtype = store_index_dtype ops shared,
    df_dtypes = store_dtypes ops shared,
    df_rows = map (\<lambda>(label, row). (store_label ops shared label, store_row ops shared row))
                (all_rows shared)\<rparr>"
proof -
  have sub: "set (type_names shared) \<subseteq> fst ` set shared" by (simp add: type_names_props)
  have "(if frames_of shared (type_names shared) \<noteq> []
    then pd_concat ops (frames_of shared (type_names shared)) else empty_frame ops) =
      pd_concat ops (frames_of shared (type_names shared))"
    by (simp add: pd_concat_Nil)
  also have "\<dots> = \<lparr>df_index_dtype = store_index_dtype ops shared,
    df_dtypes = store_dtypes ops shared,
    df_rows = map (\<lambda>(label, row). (store_label ops shared label, store_row ops shared row))
                (all_rows shared)\<rparr>"
    unfolding pd_concat_def Let_def frames_of_rows [OF sub]
    by (simp add: store_index_dtype_def store_dtypes_def store_label_def store_row_def
        all_rows_def)
  finally show ?thesis .
qed

lemma ElementData_init_unfold:
  fixes shared :: "('t::linorder \<times> ('id, 'row, 'dt, 'cdt) dataframe) list"
  shows "\<exists>m'. (\<forall>t. t \<notin> set (type_names shared) \<longrightarrow> m' t = None) \<and>
     (\<forall>k < length (type_names shared).
        m' (type_names shared ! k) = Some (range_start shared k, range_start shared (Suc k))) \<and>
     ElementData_init ops shared =
       (case ExternalIdIndex_init (store_labels ops shared) of
          Inl e \<Rightarrow> Inl (Ids_raised e)
        | Inr ix \<Rightarrow>
            Inr \<lparr>id_index = ix,
                 columns = map (\<lambda>(label, row). store_row ops shared row) (all_rows shared),
                 column_dtypes = store_dtypes ops shared,
                 type_index = \<lparr>index = type_names shared,
                                dtype = np_min_scalar_type (length (type_names shared))\<rparr>,
                 type_column =
                   np_repeat (map (get_loc (type_names shared)) (type_names shared))
                     (map (\<lambda>t. length (type_table shared t)) (type_names shared)),
                 type_element_ilocs = m'\<rparr>)"
proof -
  let ?ts = "type_names shared"
  let ?len = "\<lambda>t. length (type_table shared t)"
  let ?frame = "\<lparr>df_index_dtype = store_index_dtype ops shared,
    df_dtypes = store_dtypes ops shared,
    df_rows = map (\<lambda>(label, row). (store_label ops shared label, store_row ops shared row))
                (all_rows shared)\<rparr>"
  have sub: "set ?ts \<subseteq> fst ` set shared" by (simp add: type_names_props)
  from type_loop_result [OF sub, of Map.empty 0 "[]" "[]"] type_names_props(2) [of shared]
  obtain m' where
    run: "type_loop shared ?ts (Map.empty, 0, [], []) =
            (Inr (m', sum_list (map ?len ?ts), map ?len ?ts, frames_of shared ?ts)
              :: ('id, 't) error + _)"
    and frame: "\<And>t. t \<notin> set ?ts \<Longrightarrow> m' t = None"
    and at: "\<And>k. k < length ?ts \<Longrightarrow>
           m' (?ts ! k) = Some (sum_list (map ?len (take k ?ts)), sum_list (map ?len (take (Suc k) ?ts)))"
    by auto
  have tinit: "ExternalIdIndex_init ?ts =
                 Inr \<lparr>index = ?ts, dtype = np_min_scalar_type (length ?ts)\<rparr>"
    by (rule init_distinct) (rule type_names_props)
  have codes: "to_iloc \<lparr>index = ?ts, dtype = np_min_scalar_type (length ?ts)\<rparr> ?ts True False =
                 Inr (map (get_loc ?ts) ?ts)"
    by (rule to_iloc_known [OF tinit]) simp
  have labels: "map fst (df_rows ?frame) = store_labels ops shared"
    by (simp add: store_labels_def case_prod_unfold comp_def)
  have rows: "map snd (df_rows ?frame) =
                map (\<lambda>(label, row). store_row ops shared row) (all_rows shared)"
    by (simp add: case_prod_unfold comp_def)
  have dts: "df_dtypes ?frame = store_dtypes ops shared" by simp
  have "ElementData_init ops shared =
       (case ExternalIdIndex_init (store_labels ops shared) of
          Inl e \<Rightarrow> Inl (Ids_raised e)
        | Inr ix \<Rightarrow>
            Inr \<lparr>id_index = ix,
                 columns = map (\<lambda>(label, row). store_row ops shared row) (all_rows shared),
                 column_dtypes = store_dtypes ops shared,
                 type_index = \<lparr>index = ?ts, dtype = np_min_scalar_type (length ?ts)\<rparr>,
                 type_column = np_repeat (map (get_loc ?ts) ?ts) (map ?len ?ts),
                 type_element_ilocs = m'\<rparr>)"
    unfolding ElementData_init_def type_names_def [symmetric] Let_def run then_do_Inr
      prod.case store_frame labels rows dts tinit sum.case codes ..
  with frame at show ?thesis
    unfolding range_start_def by blast
qed

lemma ElementData_init_Inr:
  assumes "ElementData_init ops shared = Inr self"
  shows "ExternalIdIndex_init (store_labels ops shared) = Inr (id_index self)"
    and "columns self = map (\<lambda>(label, row). store_row ops shared row) (all_rows shared)"
    and "type_index self = \<lparr>index = type_names shared,
                             dtype = np_min_scalar_type (length (type_names shared))\<rparr>"
    and "type_column self =
           np_repeat (map (get_loc (type_names shared)) (type_names shared))
             (map (\<lambda>t. length (type_table shared t)) (type_names shared))"
    and "\<And>t. t \<notin> set (type_names shared) \<Longrightarrow> type_element_ilocs self t = None"
    and "\<And>k. k < length (type_names shared) \<Longrightarrow>
           type_element_ilocs self (type_names shared ! k) =
             Some (range_start shared k, range_start shared (Suc k))"
    and "column_dtypes self = store_dtypes ops shared"
proof -
  from ElementData_init_unfold [of shared ops] obtain m' where
    frame: "\<And>t. t \<notin> set (type_names shared) \<Longrightarrow> m' t = None"
    and at: "\<And>k. k < length (type_names shared) \<Longrightarrow>
        m' (type_names shared ! k) = Some (range_start shared k, range_start shared (Suc k))"
    and eq: "ElementData_init ops shared =
       (case ExternalIdIndex_init (store_labels ops shared) of
          Inl e \<Rightarrow> Inl (Ids_raised e)
        | Inr ix \<Rightarrow>
            Inr \<lparr>id_index = ix,
                 columns = map (\<lambda>(label, row). store_row ops shared row) (all_rows shared),
                 column_dtypes = store_dtypes ops shared,
                 type_index = \<lparr>index = type_names shared,
                                dtype = np_min_scalar_type (length (type_names shared))\<rparr>,
                 type_column =
                   np_repeat (map (get_loc (type_names shared)) (type_names shared))
                     (map (\<lambda>t. length (type_table shared t)) (type_names shared)),
                 type_element_ilocs = m'\<rparr>)"
    by blast
  from eq assms obtain ix where
    ix: "ExternalIdIndex_init (store_labels ops shared) = Inr ix"
    and self: "self = \<lparr>id_index = ix,
                 columns = map (\<lambda>(label, row). store_row ops shared row) (all_rows shared),
                 column_dtypes = store_dtypes ops shared,
                 type_index = \<lparr>index = type_names shared,
                                dtype = np_min_scalar_type (length (type_names shared))\<rparr>,
                 type_column =
                   np_repeat (map (get_loc (type_names shared)) (type_names shared))
                     (map (\<lambda>t. length (type_table shared t)) (type_names shared)),
                 type_element_ilocs = m'\<rparr>"
    by (auto split: sum.splits)
  from ix self show "ExternalIdIndex_init (store_labels ops shared) = Inr (id_index self)"
    by simp
  from self show "columns self = map (\<lambda>(label, row). store_row ops shared row) (all_rows shared)"
    by simp
  from self show "type_index self = \<lparr>index = type_names shared,
                             dtype = np_min_scalar_type (length (type_names shared))\<rparr>"
    by simp
  from self show "type_column self =
           np_repeat (map (get_loc (type_names shared)) (type_names shared))
             (map (\<lambda>t. length (type_table shared t)) (type_names shared))"
    by simp
  show "\<And>t. t \<notin> set (type_names shared) \<Longrightarrow> type_element_ilocs self t = None"
    using frame self by simp
  show "\<And>k. k < length (type_names shared) \<Longrightarrow>
           type_element_ilocs self (type_names shared ! k) =
             Some (range_start shared k, range_start shared (Suc k))"
    using at self by simp
  from self show "column_dtypes self = store_dtypes ops shared" by simp
qed

lemma ElementData_init_Inl:
  "ExternalIdIndex_init (store_labels ops shared) = Inl e \<Longrightarrow>
     ElementData_init ops shared = Inl (Ids_raised e)"
  using ElementData_init_unfold [of shared ops] by auto

lemma range_start_Suc:
  "k < length (type_names shared) \<Longrightarrow>
     range_start shared (Suc k) = range_start shared k + length (type_table shared (type_names shared ! k))"
  by (simp add: range_start_def sum_take_Suc)

lemma range_start_mono: "a \<le> b \<Longrightarrow> range_start shared a \<le> range_start shared b"
  unfolding range_start_def by (rule sum_take_mono)

lemma length_all_rows: "length (all_rows shared) = range_start shared (length (type_names shared))"
  by (simp add: all_rows_def range_start_def length_concat comp_def)

lemma length_store_labels:
  "length (store_labels ops shared) = range_start shared (length (type_names shared))"
  by (simp add: store_labels_def length_all_rows)

lemma all_rows_nth:
  assumes "k < length (type_names shared)" and "j < length (type_table shared (type_names shared ! k))"
  shows "all_rows shared ! (range_start shared k + j) = type_table shared (type_names shared ! k) ! j"
proof -
  let ?xss = "map (type_table shared) (type_names shared)"
  have "sum_list (map length (take k ?xss)) = range_start shared k"
    by (simp add: range_start_def take_map comp_def)
  with concat_nth_block [of k ?xss j] assms show ?thesis
    by (simp add: all_rows_def)
qed

lemma range_position_less:
  assumes "k < length (type_names shared)" and "j < length (type_table shared (type_names shared ! k))"
  shows "range_start shared k + j < length (all_rows shared)"
proof -
  from assms have "range_start shared k + j < range_start shared (Suc k)"
    by (simp add: range_start_Suc)
  also from assms(1) have "\<dots> \<le> range_start shared (length (type_names shared))"
    by (intro range_start_mono) simp
  finally show ?thesis by (simp add: length_all_rows)
qed

lemma type_column_nth:
  assumes "k < length (type_names shared)" and "j < length (type_table shared (type_names shared ! k))"
  shows "np_repeat (map (get_loc (type_names shared)) (type_names shared))
           (map (\<lambda>t. length (type_table shared t)) (type_names shared)) ! (range_start shared k + j) = int k"
    and "length (np_repeat (map (get_loc (type_names shared)) (type_names shared))
           (map (\<lambda>t. length (type_table shared t)) (type_names shared))) = length (all_rows shared)"
proof -
  let ?ts = "type_names shared"
  let ?ns = "map (\<lambda>t. length (type_table shared t)) ?ts"
  let ?cs = "map (get_loc ?ts) ?ts"
  have s: "sum_list (take k ?ns) = range_start shared k"
    by (simp add: range_start_def take_map)
  from np_repeat_nth [of ?cs ?ns k j] assms s
  have "np_repeat ?cs ?ns ! (range_start shared k + j) = ?cs ! k" by simp
  also from assms(1) have "\<dots> = int k"
    by (simp add: get_loc_nth type_names_props)
  finally show "np_repeat ?cs ?ns ! (range_start shared k + j) = int k" .
  have "map (\<lambda>(x, n). length (replicate n x)) (zip ?cs ?ns) = ?ns"
    by (intro nth_equalityI) simp_all
  then show "length (np_repeat ?cs ?ns) = length (all_rows shared)"
    by (simp add: np_repeat_def length_concat comp_def case_prod_unfold all_rows_def)
qed

lemma type_names_position:
  "map_of shared t = Some df \<Longrightarrow>
     \<exists>k < length (type_names shared). type_names shared ! k = t \<and> type_table shared t = df_rows df"
proof -
  assume df: "map_of shared t = Some df"
  then have "t \<in> fst ` set shared"
    by (metis map_of_eq_None_iff option.distinct(1))
  then have "t \<in> set (type_names shared)" by (simp add: type_names_props)
  then obtain k where "k < length (type_names shared)" "type_names shared ! k = t"
    by (auto simp: in_set_conv_nth)
  with df show ?thesis by (auto simp: type_table_def)
qed

lemma positions_differ:
  assumes "k1 < k2" and "k2 < length (type_names shared)"
    and "j1 < length (type_table shared (type_names shared ! k1))"
  shows "range_start shared k1 + j1 < range_start shared k2 + j2"
proof -
  from assms have "range_start shared k1 + j1 < range_start shared (Suc k1)"
    by (simp add: range_start_Suc)
  also from assms(1) have "\<dots> \<le> range_start shared k2"
    by (intro range_start_mono) simp
  finally show ?thesis by simp
qed

lemma repeated_label_not_distinct:
  assumes k1: "k1 < length (type_names shared)"
    and j1: "j1 < length (type_table shared (type_names shared ! k1))"
    and k2: "k2 < length (type_names shared)"
    and j2: "j2 < length (type_table shared (type_names shared ! k2))"
    and ne: "k1 \<noteq> k2 \<or> j1 \<noteq> j2"
    and eq: "fst (type_table shared (type_names shared ! k1) ! j1) =
             fst (type_table shared (type_names shared ! k2) ! j2)"
  shows "\<not> distinct (store_labels ops shared)"
proof -
  let ?p1 = "range_start shared k1 + j1" and ?p2 = "range_start shared k2 + j2"
  have l1: "?p1 < length (all_rows shared)" by (rule range_position_less [OF k1 j1])
  have l2: "?p2 < length (all_rows shared)" by (rule range_position_less [OF k2 j2])
  have "?p1 \<noteq> ?p2"
  proof (cases "k1 = k2")
    case True
    with ne show ?thesis by simp
  next
    case False
    then consider "k1 < k2" | "k2 < k1" by linarith
    then show ?thesis
    proof cases
      case 1
      from positions_differ [OF 1 k2 j1, of j2] show ?thesis by simp
    next
      case 2
      from positions_differ [OF 2 k1 j2, of j1] show ?thesis by simp
    qed
  qed
  moreover have "store_labels ops shared ! ?p1 = store_labels ops shared ! ?p2"
    using l1 l2 eq
    by (simp add: store_labels_def case_prod_unfold all_rows_nth [OF k1 j1] all_rows_nth [OF k2 j2])
  moreover have "?p1 < length (store_labels ops shared)" "?p2 < length (store_labels ops shared)"
    using l1 l2 by (simp_all add: store_labels_def)
  ultimately show ?thesis
    by (auto simp: distinct_conv_nth)
qed

lemma count_list_gt1_mem: "1 < count_list xs x \<Longrightarrow> x \<in> set xs"
proof -
  assume "1 < count_list xs x"
  then have "0 < count_list xs x" by simp
  then show ?thesis by (simp only: count_list_pos)
qed

lemma duplicated_values_set:
  "set (pd_unique (mask_select ids (pd_duplicated ids))) = {x. 1 < count_list ids x}"
proof -
  have "set (pd_unique (mask_select ids (pd_duplicated ids))) =
          {x \<in> set ids. 1 < count_list ids x}"
    by (simp add: pd_unique_def pd_duplicated_def set_mask_duplicated_from)
  also have "\<dots> = {x. 1 < count_list ids x}"
    using count_list_gt1_mem [of ids] by blast
  finally show ?thesis .
qed

lemma duplicated_values_distinct:
  "distinct (pd_unique (mask_select ids (pd_duplicated ids)))"
  by (simp add: pd_unique_def)

lemma init_not_distinct:
  "\<not> distinct ids \<Longrightarrow>
     \<exists>ds. ExternalIdIndex_init ids = Inl (ValueError_duplicated ds) \<and> distinct ds \<and>
          set ds = {x. 1 < count_list ids x}"
  by (simp add: ExternalIdIndex_init_def Let_def duplicated_values_set duplicated_values_distinct)

lemma init_isl: "isl (ExternalIdIndex_init ids) \<longleftrightarrow> \<not> distinct ids"
  by (simp add: ExternalIdIndex_init_def Let_def)

lemma ElementData_init_isl:
  "isl (ElementData_init ops shared) \<longleftrightarrow> \<not> distinct (store_labels ops shared)"
proof (cases "distinct (store_labels ops shared)")
  case True
  from init_distinct [OF True] ElementData_init_unfold [of shared ops] True
  show ?thesis by auto
next
  case False
  from init_not_distinct [OF False] obtain ds where
    "ExternalIdIndex_init (store_labels ops shared) = Inl (ValueError_duplicated ds)"
    by blast
  from ElementData_init_Inl [OF this] False show ?thesis by simp
qed

section \<open>The element store: ranges and duplicate labels\<close>

lemma np_item_nat: "p < length xs \<Longrightarrow> np_item xs (int p) = Inr (xs ! p)"
  by (simp add: np_item_def)

text \<open>
  C3. In a constructed element store the type names are taken in sorted order and the
  \<open>k\<close>-th of them owns the ilocs from the number of rows of the types before it up
  to that number plus its own row count: the ranges start at 0, follow each other without
  gap or overlap in the order of the names, and end at the length of the store, so every
  iloc of the store lies in one of them. The \<open>j\<close>-th row of a type sits at the
  \<open>j\<close>-th iloc of its range, with its label and its values as the store holds them
  (converted to the dtypes of the concatenated table), and \<^verbatim>\<open>type_of_iloc\<close> at any
  iloc of the range gives the type's name.
\<close>

theorem type_ranges_partition:
  assumes "ElementData_init ops shared = Inr self"
  shows "(sorted (type_names shared) \<and> distinct (type_names shared) \<and>
          set (type_names shared) = fst ` set shared) \<and>
         (range_start shared 0 = 0 \<and>
          ElementData_len self = range_start shared (length (type_names shared))) \<and>
         (\<forall>k < length (type_names shared).
            map_option df_rows (map_of shared (type_names shared ! k)) =
              Some (type_table shared (type_names shared ! k)) \<and>
            type_range self (type_names shared ! k) =
              Inr (range_start shared k, range_start shared (Suc k)) \<and>
            range_start shared (Suc k) =
              range_start shared k + length (type_table shared (type_names shared ! k)) \<and>
            (\<forall>j < length (type_table shared (type_names shared ! k)).
               from_iloc (id_index self) [int (range_start shared k + j)] =
                 Inr [store_label ops shared (fst (type_table shared (type_names shared ! k) ! j))] \<and>
               columns self ! (range_start shared k + j) =
                 store_row ops shared (snd (type_table shared (type_names shared ! k) ! j)) \<and>
               type_of_iloc self [int (range_start shared k + j)] = Inr [type_names shared ! k])) \<and>
         (\<forall>k1 k2. k1 < k2 \<and> k2 < length (type_names shared) \<longrightarrow>
            range_start shared (Suc k1) \<le> range_start shared k2) \<and>
         (\<forall>i < ElementData_len self.
            \<exists>k < length (type_names shared).
              range_start shared k \<le> i \<and> i < range_start shared (Suc k))"
proof -
  let ?ts = "type_names shared"
  note init = ElementData_init_Inr [OF assms]
  from init(1) have ix: "index (id_index self) = store_labels ops shared"
    by (simp add: init_Inr)
  have len: "ElementData_len self = range_start shared (length ?ts)"
    by (simp add: ElementData_len_def len_index_def ix length_store_labels)
  have names: "sorted ?ts \<and> distinct ?ts \<and> set ?ts = fst ` set shared"
    by (simp add: type_names_props)
  have zero: "range_start shared 0 = 0" by (simp add: range_start_def)
  have per_type:
    "map_option df_rows (map_of shared (?ts ! k)) = Some (type_table shared (?ts ! k)) \<and>
     type_range self (?ts ! k) = Inr (range_start shared k, range_start shared (Suc k)) \<and>
     range_start shared (Suc k) = range_start shared k + length (type_table shared (?ts ! k)) \<and>
     (\<forall>j < length (type_table shared (?ts ! k)).
        from_iloc (id_index self) [int (range_start shared k + j)] =
          Inr [store_label ops shared (fst (type_table shared (?ts ! k) ! j))] \<and>
        columns self ! (range_start shared k + j) =
          store_row ops shared (snd (type_table shared (?ts ! k) ! j)) \<and>
        type_of_iloc self [int (range_start shared k + j)] = Inr [?ts ! k])"
    if k: "k < length ?ts" for k
  proof -
    from k have a: "map_option df_rows (map_of shared (?ts ! k)) = Some (type_table shared (?ts ! k))"
      by (intro type_names_lookup) simp
    from init(6) [OF k] have b:
      "type_range self (?ts ! k) = Inr (range_start shared k, range_start shared (Suc k))"
      by (simp add: type_range_def dict_get_def)
    have c: "range_start shared (Suc k) = range_start shared k + length (type_table shared (?ts ! k))"
      by (rule range_start_Suc [OF k])
    have d: "from_iloc (id_index self) [int (range_start shared k + j)] =
               Inr [store_label ops shared (fst (type_table shared (?ts ! k) ! j))] \<and>
             columns self ! (range_start shared k + j) =
               store_row ops shared (snd (type_table shared (?ts ! k) ! j)) \<and>
             type_of_iloc self [int (range_start shared k + j)] = Inr [?ts ! k]"
      if j: "j < length (type_table shared (?ts ! k))" for j
    proof -
      let ?p = "range_start shared k + j"
      have p: "?p < length (all_rows shared)" by (rule range_position_less [OF k j])
      have row: "all_rows shared ! ?p = type_table shared (?ts ! k) ! j"
        by (rule all_rows_nth [OF k j])
      from p have "np_item (store_labels ops shared) (int ?p) = Inr (store_labels ops shared ! ?p)"
        by (intro np_item_nat) (simp add: store_labels_def)
      with p row have d1: "from_iloc (id_index self) [int ?p] =
                             Inr [store_label ops shared (fst (type_table shared (?ts ! k) ! j))]"
        by (simp add: from_iloc_def ix store_labels_def case_prod_unfold del: of_nat_add)
      from p row have d2: "columns self ! ?p =
                             store_row ops shared (snd (type_table shared (?ts ! k) ! j))"
        by (simp add: init(2) case_prod_unfold)
      from type_column_nth [OF k j] p have col:
        "type_column self ! ?p = int k" "?p < length (type_column self)"
        by (simp_all add: init(4))
      from col have "np_take (type_column self) [int ?p] = Inr [int k]"
        using np_item_nat [of ?p "type_column self"] by (simp del: of_nat_add)
      moreover from k have "from_iloc (type_index self) [int k] = Inr [?ts ! k]"
        using np_item_nat [of k ?ts] by (simp add: from_iloc_def init(3))
      ultimately have d3: "type_of_iloc self [int ?p] = Inr [?ts ! k]"
        by (simp add: type_of_iloc_def)
      from d1 d2 d3 show ?thesis by blast
    qed
    from a b c d show ?thesis by blast
  qed
  have ordered: "range_start shared (Suc k1) \<le> range_start shared k2"
    if "k1 < k2 \<and> k2 < length ?ts" for k1 k2
    using that by (intro range_start_mono) simp
  have cover: "\<exists>k < length ?ts. range_start shared k \<le> i \<and> i < range_start shared (Suc k)"
    if "i < ElementData_len self" for i
  proof -
    from that len have "i < sum_list (map (\<lambda>t. length (type_table shared t)) ?ts)"
      by (simp add: range_start_def)
    from prefix_sum_cover [OF this] show ?thesis
      by (simp add: range_start_def)
  qed
  from names zero len per_type ordered cover show ?thesis by blast
qed

theorem type_ranges_partition_witness:
  "ElementData_init one_dtype_ops example_nodes =
     Inr (projr (ElementData_init one_dtype_ops example_nodes)) \<and>
   type_names example_nodes = [''A'', ''B''] \<and>
   type_range (projr (ElementData_init one_dtype_ops example_nodes)) ''A'' = Inr (0, 3) \<and>
   type_range (projr (ElementData_init one_dtype_ops example_nodes)) ''B'' = Inr (3, 8) \<and>
   ElementData_len (projr (ElementData_init one_dtype_ops example_nodes)) = 8 \<and>
   from_iloc (id_index (projr (ElementData_init one_dtype_ops example_nodes))) [4] = Inr [14] \<and>
   type_of_iloc (projr (ElementData_init one_dtype_ops example_nodes)) [4] = Inr [''B'']"
proof -
  let ?self = "projr (ElementData_init one_dtype_ops example_nodes)"
  have "\<not> isl (ElementData_init one_dtype_ops example_nodes)" by code_simp
  then have init: "ElementData_init one_dtype_ops example_nodes = Inr ?self" by simp
  have tn: "type_names example_nodes = [''A'', ''B'']" by code_simp
  have rs: "range_start example_nodes 0 = 0" "range_start example_nodes (Suc 0) = 3"
    "range_start example_nodes (Suc (Suc 0)) = 8"
    by code_simp+
  have tb: "type_table example_nodes ''B'' = [(13, ()), (14, ()), (15, ()), (16, ()), (17, ())]"
    by code_simp
  have sl: "store_label one_dtype_ops example_nodes = (\<lambda>label. label)"
    by (rule ext) (simp add: store_label_def one_dtype_ops_def)
  note T = type_ranges_partition [OF init]
  from T have len: "ElementData_len ?self = range_start example_nodes (length (type_names example_nodes))"
    by blast
  from T have per: "\<forall>k < length (type_names example_nodes).
            type_range ?self (type_names example_nodes ! k) =
              Inr (range_start example_nodes k, range_start example_nodes (Suc k)) \<and>
            (\<forall>j < length (type_table example_nodes (type_names example_nodes ! k)).
               from_iloc (id_index ?self) [int (range_start example_nodes k + j)] =
                 Inr [store_label one_dtype_ops example_nodes
                        (fst (type_table example_nodes (type_names example_nodes ! k) ! j))] \<and>
               type_of_iloc ?self [int (range_start example_nodes k + j)] =
                 Inr [type_names example_nodes ! k])"
    by blast
  from per [rule_format, of 0] have a: "type_range ?self ''A'' = Inr (0, 3)"
    using rs by (simp add: tn)
  from per [rule_format, of "Suc 0"] have b: "type_range ?self ''B'' = Inr (3, 8)"
    and b': "\<forall>j < 5. from_iloc (id_index ?self) [int (3 + j)] =
                 Inr [fst ([(13, ()), (14, ()), (15, ()), (16, ()), (17, ())] ! j)] \<and>
               type_of_iloc ?self [int (3 + j)] = Inr [''B'']"
    using rs by (simp_all add: tn tb sl)
  from b' [rule_format, of "Suc 0"] have c: "from_iloc (id_index ?self) [4] = Inr [14]"
    and d: "type_of_iloc ?self [4] = Inr [''B'']"
    by simp_all
  from len have e: "ElementData_len ?self = 8" by (simp add: tn rs)
  from init tn a b c d e show ?thesis by simp
qed

text \<open>
  C6. The constructor of an identifier index fails exactly when an identifier is
  repeated, with the error that carries each repeated identifier once. The constructor
  of an element store builds the index over the labels of all rows, type after type, as
  the concatenated table holds them, and fails exactly when such a label is repeated,
  with the same error: in particular when a label is repeated within the table of one
  type or shared by the tables of two types.
\<close>

theorem duplicate_identifiers_rejected:
  "(isl (ExternalIdIndex_init ids) \<longleftrightarrow> \<not> distinct ids) \<and>
   (\<not> distinct ids \<longrightarrow>
      (\<exists>ds. ExternalIdIndex_init ids = Inl (ValueError_duplicated ds) \<and> distinct ds \<and>
            set ds = {x. 1 < count_list ids x})) \<and>
   (isl (ElementData_init ops shared) \<longleftrightarrow> \<not> distinct (store_labels ops shared)) \<and>
   (\<not> distinct (store_labels ops shared) \<longrightarrow>
      (\<exists>ds. ElementData_init ops shared = Inl (Ids_raised (ValueError_duplicated ds)) \<and>
            ExternalIdIndex_init (store_labels ops shared) = Inl (ValueError_duplicated ds) \<and>
            distinct ds \<and> set ds = {x. 1 < count_list (store_labels ops shared) x})) \<and>
   (\<forall>t df. map_of shared t = Some df \<and> \<not> distinct (map fst (df_rows df)) \<longrightarrow>
      \<not> distinct (store_labels ops shared) \<and> isl (ElementData_init ops shared)) \<and>
   (\<forall>t1 t2 df1 df2.
      t1 \<noteq> t2 \<and> map_of shared t1 = Some df1 \<and> map_of shared t2 = Some df2 \<and>
      set (map fst (df_rows df1)) \<inter> set (map fst (df_rows df2)) \<noteq> {} \<longrightarrow>
      \<not> distinct (store_labels ops shared) \<and> isl (ElementData_init ops shared))"
proof -
  have p1: "isl (ExternalIdIndex_init ids) \<longleftrightarrow> \<not> distinct ids" by (rule init_isl)
  have p2: "\<not> distinct ids \<longrightarrow>
      (\<exists>ds. ExternalIdIndex_init ids = Inl (ValueError_duplicated ds) \<and> distinct ds \<and>
            set ds = {x. 1 < count_list ids x})"
    using init_not_distinct [of ids] by blast
  have p3: "isl (ElementData_init ops shared) \<longleftrightarrow> \<not> distinct (store_labels ops shared)"
    by (rule ElementData_init_isl)
  have p4: "\<exists>ds. ElementData_init ops shared = Inl (Ids_raised (ValueError_duplicated ds)) \<and>
            ExternalIdIndex_init (store_labels ops shared) = Inl (ValueError_duplicated ds) \<and>
            distinct ds \<and> set ds = {x. 1 < count_list (store_labels ops shared) x}"
    if nd: "\<not> distinct (store_labels ops shared)"
  proof -
    from init_not_distinct [OF nd] obtain ds where
      ds: "ExternalIdIndex_init (store_labels ops shared) = Inl (ValueError_duplicated ds)"
        "distinct ds" "set ds = {x. 1 < count_list (store_labels ops shared) x}"
      by blast
    from ElementData_init_Inl [OF ds(1)] ds show ?thesis by blast
  qed
  have p5: "\<not> distinct (store_labels ops shared) \<and> isl (ElementData_init ops shared)"
    if h: "map_of shared t = Some df \<and> \<not> distinct (map fst (df_rows df))" for t df
  proof -
    from h type_names_position [of shared t df] obtain k where
      k: "k < length (type_names shared)" "type_names shared ! k = t"
         "type_table shared t = df_rows df"
      by blast
    from h obtain j1 j2 where
      j: "j1 < length (df_rows df)" "j2 < length (df_rows df)" "j1 \<noteq> j2"
         "fst (df_rows df ! j1) = fst (df_rows df ! j2)"
      by (auto simp: distinct_conv_nth)
    from k j have "\<not> distinct (store_labels ops shared)"
      by (intro repeated_label_not_distinct [of k shared j1 k j2]) simp_all
    with p3 show ?thesis by simp
  qed
  have p6: "\<not> distinct (store_labels ops shared) \<and> isl (ElementData_init ops shared)"
    if h: "t1 \<noteq> t2 \<and> map_of shared t1 = Some df1 \<and> map_of shared t2 = Some df2 \<and>
           set (map fst (df_rows df1)) \<inter> set (map fst (df_rows df2)) \<noteq> {}" for t1 t2 df1 df2
  proof -
    from h type_names_position [of shared t1 df1] obtain k1 where
      k1: "k1 < length (type_names shared)" "type_names shared ! k1 = t1"
          "type_table shared t1 = df_rows df1"
      by blast
    from h type_names_position [of shared t2 df2] obtain k2 where
      k2: "k2 < length (type_names shared)" "type_names shared ! k2 = t2"
          "type_table shared t2 = df_rows df2"
      by blast
    from h obtain x where "x \<in> set (map fst (df_rows df1))" "x \<in> set (map fst (df_rows df2))"
      by blast
    then obtain j1 j2 where
      j: "j1 < length (df_rows df1)" "fst (df_rows df1 ! j1) = x"
         "j2 < length (df_rows df2)" "fst (df_rows df2 ! j2) = x"
      by (auto simp: in_set_conv_nth)
    from h k1(2) k2(2) have "k1 \<noteq> k2" by auto
    with k1 k2 j have "\<not> distinct (store_labels ops shared)"
      by (intro repeated_label_not_distinct [of k1 shared j1 k2 j2]) simp_all
    with p3 show ?thesis by simp
  qed
  from p1 p2 p3 p4 p5 p6 show ?thesis by blast
qed

theorem duplicate_identifiers_rejected_witness:
  "\<not> distinct [1::nat, 2, 3, 2, 1, 1, 5] \<and>
   ExternalIdIndex_init [1::nat, 2, 3, 2, 1, 1, 5] = Inl (ValueError_duplicated [2, 1]) \<and>
   isl (ElementData_init one_dtype_ops
          [(''A'', \<lparr>df_index_dtype = (), df_dtypes = (), df_rows = [(1::nat, ()), (2, ())]\<rparr>),
           (''B'', \<lparr>df_index_dtype = (), df_dtypes = (), df_rows = [(2, ()), (3, ())]\<rparr>)]) \<and>
   projl (ElementData_init one_dtype_ops
          [(''A'', \<lparr>df_index_dtype = (), df_dtypes = (), df_rows = [(1::nat, ()), (2, ())]\<rparr>),
           (''B'', \<lparr>df_index_dtype = (), df_dtypes = (), df_rows = [(2, ()), (3, ())]\<rparr>)]) =
     Ids_raised (ValueError_duplicated [2]) \<and>
   isl (ElementData_init one_dtype_ops
          [(''A'', \<lparr>df_index_dtype = (), df_dtypes = (), df_rows = [(1::nat, ()), (1, ())]\<rparr>)]) \<and>
   projl (ElementData_init one_dtype_ops
          [(''A'', \<lparr>df_index_dtype = (), df_dtypes = (), df_rows = [(1::nat, ()), (1, ())]\<rparr>)]) =
     Ids_raised (ValueError_duplicated [1]) \<and>
   \<not> isl (ElementData_init one_dtype_ops
          [(''A'', \<lparr>df_index_dtype = (), df_dtypes = (), df_rows = [(1::nat, ()), (2, ())]\<rparr>),
           (''B'', \<lparr>df_index_dtype = (), df_dtypes = (), df_rows = [(3, ()), (4, ())]\<rparr>)]) \<and>
   store_labels numpy_index_ops mixed_index_nodes =
     [9223372036854775808, 9223372036854775808, - 1] \<and>
   isl (ElementData_init numpy_index_ops mixed_index_nodes) \<and>
   projl (ElementData_init numpy_index_ops mixed_index_nodes) =
     Ids_raised (ValueError_duplicated [9223372036854775808])"
proof -
  let ?A = "\<lparr>df_index_dtype = (), df_dtypes = (), df_rows = [(1::nat, ()), (2, ())]\<rparr>"
  let ?B = "\<lparr>df_index_dtype = (), df_dtypes = (), df_rows = [(2::nat, ()), (3, ())]\<rparr>"
  let ?W = "\<lparr>df_index_dtype = (), df_dtypes = (), df_rows = [(1::nat, ()), (1, ())]\<rparr>"
  let ?across = "[(''A'', ?A), (''B'', ?B)]"
  let ?within = "[(''A'', ?W)]"
  let ?ops = "one_dtype_ops :: (nat, unit, unit, unit) concat_ops"
  note T = duplicate_identifiers_rejected [of "[1::nat, 2, 3, 2, 1, 1, 5]" ?ops ?across]
  note W = duplicate_identifiers_rejected [of "[1::nat, 2, 3, 2, 1, 1, 5]" ?ops ?within]
  note M = duplicate_identifiers_rejected [of "[1::nat, 2, 3, 2, 1, 1, 5]" numpy_index_ops
      mixed_index_nodes]
  have nd: "\<not> distinct [1::nat, 2, 3, 2, 1, 1, 5]" by simp
  have "isl (ExternalIdIndex_init [1::nat, 2, 3, 2, 1, 1, 5])"
    "projl (ExternalIdIndex_init [1::nat, 2, 3, 2, 1, 1, 5]) = ValueError_duplicated [2, 1]"
    by code_simp+
  then have a: "ExternalIdIndex_init [1::nat, 2, 3, 2, 1, 1, 5] = Inl (ValueError_duplicated [2, 1])"
    by (metis sum.collapse(1))
  have h: "''A'' \<noteq> ''B'' \<and> map_of ?across ''A'' = Some ?A \<and> map_of ?across ''B'' = Some ?B \<and>
           set (map fst (df_rows ?A)) \<inter> set (map fst (df_rows ?B)) \<noteq> {}"
    by simp
  from T [THEN conjunct2, THEN conjunct2, THEN conjunct2, THEN conjunct2, THEN conjunct2,
      rule_format, OF h]
  have b: "isl (ElementData_init ?ops ?across)" by (rule conjunct2)
  have c: "projl (ElementData_init ?ops ?across) = Ids_raised (ValueError_duplicated [2])"
    by code_simp
  have h': "map_of ?within ''A'' = Some ?W \<and> \<not> distinct (map fst (df_rows ?W))"
    by simp
  from W [THEN conjunct2, THEN conjunct2, THEN conjunct2, THEN conjunct2, THEN conjunct1,
      rule_format, OF h']
  have d: "isl (ElementData_init ?ops ?within)" by (rule conjunct2)
  have e: "projl (ElementData_init ?ops ?within) = Ids_raised (ValueError_duplicated [1])"
    by code_simp
  have f: "\<not> isl (ElementData_init ?ops
          [(''A'', ?A),
           (''B'', \<lparr>df_index_dtype = (), df_dtypes = (), df_rows = [(3, ()), (4, ())]\<rparr>)])"
    by code_simp
  have g: "store_labels numpy_index_ops mixed_index_nodes =
             [9223372036854775808, 9223372036854775808, - 1]"
    by code_simp
  then have "\<not> distinct (store_labels numpy_index_ops mixed_index_nodes)" by simp
  with M [THEN conjunct2, THEN conjunct2, THEN conjunct1]
  have i: "isl (ElementData_init numpy_index_ops mixed_index_nodes)" by (rule iffD2)
  have j: "projl (ElementData_init numpy_index_ops mixed_index_nodes) =
             Ids_raised (ValueError_duplicated [9223372036854775808])"
    by code_simp
  from nd a b c d e f g i j show ?thesis by simp
qed

section \<open>Facts about the node store\<close>
















section \<open>The node store: feature lookup\<close>




section \<open>The edge store: adjacency queries\<close>

text \<open>
  C9. \<^verbatim>\<open>_adj_lookup\<close> and \<^verbatim>\<open>_weight_lookup\<close> return the undirected table when
  both flags are true, the incoming table when only \<^verbatim>\<open>ins\<close> is, the outgoing table
  when only \<^verbatim>\<open>outs\<close> is; \<^verbatim>\<open>degrees\<close>, \<^verbatim>\<open>neighbour_ilocs\<close> and
  \<^verbatim>\<open>neighbour_weights\<close> read that one table and nothing else, \<^verbatim>\<open>degrees\<close>
  giving 0 at a key the table does not have; with both flags false all three queries
  fail with the error asking for at least one of \<^verbatim>\<open>ins\<close> and \<^verbatim>\<open>outs\<close>.
\<close>

theorem lookups_select_one_table:
  "(ins \<and> outs \<longrightarrow>
      adj_lookup self t ins outs = dict_get (edges_by_type self) t \<and>
      weight_lookup self t ins outs = dict_get (weights_by_type self) t) \<and>
   (ins \<and> \<not> outs \<longrightarrow>
      adj_lookup self t ins outs = dict_get (edges_in_by_type self) t \<and>
      weight_lookup self t ins outs = dict_get (weights_in_by_type self) t) \<and>
   (\<not> ins \<and> outs \<longrightarrow>
      adj_lookup self t ins outs = dict_get (edges_out_by_type self) t \<and>
      weight_lookup self t ins outs = dict_get (weights_out_by_type self) t) \<and>
   (\<not> ins \<and> \<not> outs \<longrightarrow>
      degrees self t ins outs = Inl ValueError_ins_outs \<and>
      neighbour_ilocs self v t ins outs = Inl ValueError_ins_outs \<and>
      neighbour_weights self v t ins outs = Inl ValueError_ins_outs) \<and>
   (\<forall>adj. adj_lookup self t ins outs = Inr adj \<longrightarrow>
      (\<exists>d. degrees self t ins outs = Inr d \<and>
           (\<forall>k. d k = (case adj k of None \<Rightarrow> 0 | Some ns \<Rightarrow> length ns))) \<and>
      neighbour_ilocs self v t ins outs =
        (case adj v of None \<Rightarrow> Inl (KeyError_node v) | Some ns \<Rightarrow> Inr ns)) \<and>
   (\<forall>wts. weight_lookup self t ins outs = Inr wts \<longrightarrow>
      neighbour_weights self v t ins outs =
        (case wts v of None \<Rightarrow> Inl (KeyError_node v) | Some ws \<Rightarrow> Inr ws)) \<and>
   (\<forall>e. adj_lookup self t ins outs = Inl e \<longrightarrow>
      degrees self t ins outs = Inl e \<and> neighbour_ilocs self v t ins outs = Inl e)"
  by (simp add: adj_lookup_def weight_lookup_def degrees_def neighbour_ilocs_def
        neighbour_weights_def)

theorem lookups_select_one_table_witness:
  "neighbour_ilocs (projr (EdgeData_init one_dtype_casts example_edges 3)) 2 ''e'' True True = Inr [1, 2] \<and>
   neighbour_ilocs (projr (EdgeData_init one_dtype_casts example_edges 3)) 2 ''e'' True False = Inr [1, 2] \<and>
   neighbour_ilocs (projr (EdgeData_init one_dtype_casts example_edges 3)) 2 ''e'' False True = Inr [2] \<and>
   neighbour_weights (projr (EdgeData_init one_dtype_casts example_edges 3)) 2 ''e'' True True = Inr [2, 3] \<and>
   then_do (degrees (projr (EdgeData_init one_dtype_casts example_edges 3)) ''e'' True True)
     (\<lambda>d. Inr (map d [0, 1, 2, 3])) = Inr [1, 2, 2, 0] \<and>
   then_do (degrees (projr (EdgeData_init one_dtype_casts example_edges 3)) ''e'' True False)
     (\<lambda>d. Inr (map d [0, 1, 2, 3])) = Inr [0, 1, 2, 0] \<and>
   then_do (degrees (projr (EdgeData_init one_dtype_casts example_edges 3)) ''e'' False True)
     (\<lambda>d. Inr (map d [0, 1, 2, 3])) = Inr [1, 1, 1, 0] \<and>
   degrees (projr (EdgeData_init one_dtype_casts example_edges 3)) ''e'' False False =
     Inl ValueError_ins_outs \<and>
   neighbour_ilocs (projr (EdgeData_init one_dtype_casts example_edges 3)) 2 ''e'' False False =
     Inl ValueError_ins_outs \<and>
   neighbour_weights (projr (EdgeData_init one_dtype_casts example_edges 3)) 2 ''e'' False False =
     Inl ValueError_ins_outs"
proof -
  let ?self = "projr (EdgeData_init one_dtype_casts example_edges 3)"
  have a: "neighbour_ilocs ?self 2 ''e'' True True = Inr [1, 2]" by code_simp
  have b: "neighbour_ilocs ?self 2 ''e'' True False = Inr [1, 2]" by code_simp
  have c: "neighbour_ilocs ?self 2 ''e'' False True = Inr [2]" by code_simp
  have d: "neighbour_weights ?self 2 ''e'' True True = Inr [2, 3]" by code_simp
  have e: "then_do (degrees ?self ''e'' True True) (\<lambda>d. Inr (map d [0, 1, 2, 3])) = Inr [1, 2, 2, 0]"
    by code_simp
  have f: "then_do (degrees ?self ''e'' True False) (\<lambda>d. Inr (map d [0, 1, 2, 3])) = Inr [0, 1, 2, 0]"
    by code_simp
  have g: "then_do (degrees ?self ''e'' False True) (\<lambda>d. Inr (map d [0, 1, 2, 3])) = Inr [1, 1, 1, 0]"
    by code_simp
  from lookups_select_one_table [of False False ?self "''e''" 2]
  have h: "degrees ?self ''e'' False False = Inl ValueError_ins_outs"
    "neighbour_ilocs ?self 2 ''e'' False False = Inl ValueError_ins_outs"
    "neighbour_weights ?self 2 ''e'' False False = Inl ValueError_ins_outs"
    by simp_all
  from a b c d e f g h show ?thesis by simp
qed

section \<open>Facts about the construction of the adjacency tables\<close>

















section \<open>The edge store: adjacency tables\<close>




end
